theory Spec2Isabelle
  imports Main
begin

section \<open>Common notions\<close>

text \<open>
  A Go \<^verbatim>\<open>error\<close> value is identified with its message; the nil error is \<open>None\<close>.
  A call either returns, waits forever on a channel, or panics.
\<close>

type_synonym error = string

datatype 'a outcome = Returned 'a | Blocked | Panic string

section \<open>Package gows: connectors and the server\<close>

text \<open>
  \<^verbatim>\<open>ConnectorConfiguration\<close> is declared elsewhere in the package; the fields are the
  ones \<^verbatim>\<open>newServerConnector\<close> and \<^verbatim>\<open>start\<close> read.
\<close>

record ConnectorConfiguration =
  Type :: string
  Addr :: string
  CertFile :: string
  KeyFile :: string

text \<open>
  \<^verbatim>\<open>http.Server\<close> belongs to the Go library. What the server code sees of it is the
  terminal error of \<^verbatim>\<open>ListenAndServe\<close> and of \<^verbatim>\<open>ListenAndServeTLS\<close> (taken as given),
  and whether its listener is open.
\<close>

record http_Server =
  srvAddr :: string
  listening :: bool
  ListenAndServe :: "error option"
  ListenAndServeTLS :: "string \<Rightarrow> string \<Rightarrow> error option"

record DefaultServerConnector =
  Server :: http_Server
  configuration :: ConnectorConfiguration

text \<open>\<^verbatim>\<open>func (connector *DefaultServerConnector) start() error\<close>\<close>

definition start :: "DefaultServerConnector \<Rightarrow> error option" where
  "start connector =
     (if Type (configuration connector) = ''https''
      then ListenAndServeTLS (Server connector)
             (CertFile (configuration connector)) (KeyFile (configuration connector))
      else ListenAndServe (Server connector))"

record DefaultServer =
  Connectors :: "DefaultServerConnector list"

text \<open>
  \<^verbatim>\<open>func (server *DefaultServer) Stop() error\<close>: the body is a TODO followed by
  \<^verbatim>\<open>return nil\<close>; the server is returned as it was.
\<close>

definition Stop :: "DefaultServer \<Rightarrow> error option \<times> DefaultServer" where
  "Stop server = (None, server)"

text \<open>
  \<^verbatim>\<open>Start\<close> launches one goroutine per connector; goroutine \<open>k\<close> evaluates
  \<open>start\<close> of connector \<open>k\<close> and sends the value on the unbuffered \<^verbatim>\<open>errorChan\<close>.
  The interleaving is a parameter: \<open>order\<close> lists the connectors whose \<open>start\<close> has
  returned, in the order in which their sends reach the receiver. A connector that is
  not listed is still serving. The channel is the list of pending sends, each tagged
  with its sender.
\<close>

definition deliveries :: "DefaultServer \<Rightarrow> nat list \<Rightarrow> (nat \<times> error option) list" where
  "deliveries server order = map (\<lambda>k. (k, start (Connectors server ! k))) order"

definition schedule_ok :: "DefaultServer \<Rightarrow> nat list \<Rightarrow> bool" where
  "schedule_ok server order \<longleftrightarrow>
     distinct order \<and> list_all (\<lambda>k. k < length (Connectors server)) order"

datatype event = Received nat "error option" | StopCalled

record start_run =
  start_result :: "error option outcome"
  trace :: "event list"
  unreceived :: "(nat \<times> error option) list"
  server_after :: DefaultServer

text \<open>
  The receive loop \<^verbatim>\<open>for i := len(server.Connectors); i > 0; i--\<close>. With the counter
  positive and no send pending, the receive waits forever.
\<close>

fun Start_loop ::
  "nat \<Rightarrow> DefaultServer \<Rightarrow> (nat \<times> error option) list \<Rightarrow> event list \<Rightarrow> start_run" where
  "Start_loop 0 server chan tr =
     \<lparr>start_result = Returned None, trace = tr, unreceived = chan, server_after = server\<rparr>"
| "Start_loop (Suc i) server [] tr =
     \<lparr>start_result = Blocked, trace = tr, unreceived = [], server_after = server\<rparr>"
| "Start_loop (Suc i) server ((k, err) # chan) tr =
     (case err of
        Some e \<Rightarrow>
          (let (_, server') = Stop server
           in \<lparr>start_result = Returned (Some e), trace = tr @ [Received k err, StopCalled],
               unreceived = chan, server_after = server'\<rparr>)
      | None \<Rightarrow> Start_loop i server chan (tr @ [Received k err]))"

definition Start :: "DefaultServer \<Rightarrow> nat list \<Rightarrow> start_run" where
  "Start server order =
     Start_loop (length (Connectors server)) server (deliveries server order) []"

text \<open>
  \<^verbatim>\<open>newServerConnector\<close>, with the behaviour of the new \<^verbatim>\<open>http.Server\<close> given: its
  listener state and the terminal errors of its two serving calls.
\<close>

definition newServerConnector ::
  "bool \<Rightarrow> error option \<Rightarrow> (string \<Rightarrow> string \<Rightarrow> error option) \<Rightarrow> ConnectorConfiguration
     \<Rightarrow> DefaultServerConnector" where
  "newServerConnector open plain tls cfg =
     \<lparr>Server = \<lparr>srvAddr = Addr cfg, listening = open, ListenAndServe = plain,
                 ListenAndServeTLS = tls\<rparr>,
      configuration = cfg\<rparr>"

text \<open>Concrete servers used to run the model.\<close>

definition http_connector :: "string \<Rightarrow> error option \<Rightarrow> DefaultServerConnector" where
  "http_connector addr r =
     newServerConnector True r (\<lambda>cert key. None)
       \<lparr>Type = ''http'', Addr = addr, CertFile = [], KeyFile = []\<rparr>"

definition server_one_fails :: DefaultServer where
  "server_one_fails =
     \<lparr>Connectors = [http_connector '':8080'' None,
                     http_connector '':8081'' (Some ''listen tcp :8081: address already in use'')]\<rparr>"

definition server_both_fail :: DefaultServer where
  "server_both_fail =
     \<lparr>Connectors = [http_connector '':80'' (Some ''listen tcp :80: permission denied''),
                     http_connector '':81'' (Some ''listen tcp :81: permission denied'')]\<rparr>"

definition server_clean :: DefaultServer where
  "server_clean =
     \<lparr>Connectors = [http_connector '':8080'' None, http_connector '':8081'' None]\<rparr>"

text \<open>The results a run has taken from the channel, read off its trace.\<close>

fun received_of :: "event list \<Rightarrow> (nat \<times> error option) list" where
  "received_of [] = []"
| "received_of (Received k err # tr) = (k, err) # received_of tr"
| "received_of (StopCalled # tr) = received_of tr"

definition is_nil :: "nat \<times> error option \<Rightarrow> bool" where
  "is_nil d \<longleftrightarrow> snd d = None"

section \<open>The response writer of net/http\<close>

text \<open>
  \<^verbatim>\<open>http.ResponseWriter\<close> belongs to the Go library. The model keeps the header map, the
  status line once it is written, and the body. \<^verbatim>\<open>WriteHeader\<close> has no effect once the
  status is written; the first \<^verbatim>\<open>Write\<close> writes status 200 when none was written.
  \<^verbatim>\<open>fmt.Fprintf(w, ...)\<close> is a \<^verbatim>\<open>Write\<close> of the formatted text.
\<close>

abbreviation NL :: string where "NL \<equiv> [CHR 0x0A]"
abbreviation TAB :: string where "TAB \<equiv> [CHR 0x09]"

record ResponseWriter =
  headers :: "string \<rightharpoonup> string"
  status :: "nat option"
  body :: string

definition new_ResponseWriter :: ResponseWriter where
  "new_ResponseWriter = \<lparr>headers = Map.empty, status = None, body = []\<rparr>"

definition Header_Set :: "string \<Rightarrow> string \<Rightarrow> ResponseWriter \<Rightarrow> ResponseWriter" where
  "Header_Set key v w = w\<lparr>headers := (headers w)(key \<mapsto> v)\<rparr>"

definition WriteHeader :: "nat \<Rightarrow> ResponseWriter \<Rightarrow> ResponseWriter" where
  "WriteHeader code w = (case status w of None \<Rightarrow> w\<lparr>status := Some code\<rparr> | Some _ \<Rightarrow> w)"

definition Write :: "string \<Rightarrow> ResponseWriter \<Rightarrow> ResponseWriter" where
  "Write bytes w = (let w' = WriteHeader 200 w in w'\<lparr>body := body w' @ bytes\<rparr>)"

abbreviation StatusNotImplemented :: nat where "StatusNotImplemented \<equiv> 501"
abbreviation StatusInternalServerError :: nat where "StatusInternalServerError \<equiv> 500"
abbreviation StatusOK :: nat where "StatusOK \<equiv> 200"

section \<open>The health check page (the same code in package gows and in package core)\<close>

text \<open>
  \<^verbatim>\<open>health.Result\<close> and the registry belong to the health library. \<^verbatim>\<open>RunHealthChecks\<close>
  returns a Go map from check names to results; the model takes it as the list of its
  entries in the order the \<^verbatim>\<open>range\<close> loops visit them.
\<close>

record health_Result =
  Healthy :: bool
  Message :: string
  Cause :: "error option"

type_synonym health_results = "(string \<times> health_Result) list"

text \<open>The verb \<^verbatim>\<open>%t\<close> of package fmt.\<close>

definition fmt_bool :: "bool \<Rightarrow> string" where
  "fmt_bool b = (if b then ''true'' else ''false'')"

text \<open>\<^verbatim>\<open>func isAllHealthy(results map[string]*health.Result) bool\<close>\<close>

fun isAllHealthy :: "health_results \<Rightarrow> bool" where
  "isAllHealthy [] = True"
| "isAllHealthy ((name, result) # rest) =
     (if \<not> Healthy result then False else isAllHealthy rest)"

text \<open>The loop \<^verbatim>\<open>for name, result := range results\<close> of \<^verbatim>\<open>ServeHTTP\<close>.\<close>

fun write_results :: "health_results \<Rightarrow> ResponseWriter \<Rightarrow> ResponseWriter" where
  "write_results [] w = w"
| "write_results ((name, result) # rest) w =
     (let w1 = Write (name @ '':'' @ NL @ TAB @ ''Healthy: '' @ fmt_bool (Healthy result) @ NL) w;
          w2 = (if Message result \<noteq> [] then Write (TAB @ ''Message: '' @ Message result @ NL) w1
                else w1);
          w3 = (case Cause result of
                  Some cause \<Rightarrow> Write (TAB @ ''Cause: '' @ cause @ NL) w2
                | None \<Rightarrow> w2)
      in write_results rest w3)"

text \<open>
  \<^verbatim>\<open>func (handler *HealthCheckHandler) ServeHTTP(w, r)\<close>; the argument \<open>results\<close> is
  what \<^verbatim>\<open>handler.registry.RunHealthChecks()\<close> returns for this request.
\<close>

definition HealthCheckHandler_ServeHTTP :: "health_results \<Rightarrow> ResponseWriter \<Rightarrow> ResponseWriter" where
  "HealthCheckHandler_ServeHTTP results w =
     (let w1 = Header_Set ''Cache-Control'' ''must-revalidate,no-cache,no-store'' w;
          w2 = Header_Set ''Content-Type'' ''text/plain'' w1
      in if length results = 0
         then Write ''No health checks registered.'' (WriteHeader StatusNotImplemented w2)
         else let w3 = (if \<not> isAllHealthy results
                        then WriteHeader StatusInternalServerError w2 else w2)
              in write_results results w3)"

text \<open>The text the page shows for one check: name, healthy flag, message and cause if any.\<close>

definition check_report :: "string \<times> health_Result \<Rightarrow> string" where
  "check_report entry =
     fst entry @ '':'' @ NL @ TAB @ ''Healthy: '' @ fmt_bool (Healthy (snd entry)) @ NL
     @ (if Message (snd entry) = [] then []
        else TAB @ ''Message: '' @ Message (snd entry) @ NL)
     @ (case Cause (snd entry) of None \<Rightarrow> [] | Some cause \<Rightarrow> TAB @ ''Cause: '' @ cause @ NL)"

definition healthy_entry :: "string \<times> health_Result \<Rightarrow> bool" where
  "healthy_entry entry = Healthy (snd entry)"

definition checks_one_bad :: health_results where
  "checks_one_bad =
     [(''db'', \<lparr>Healthy = True, Message = [], Cause = None\<rparr>),
      (''queue'', \<lparr>Healthy = False, Message = ''queue is full'', Cause = Some ''timeout''\<rparr>)]"

definition checks_all_good :: health_results where
  "checks_all_good =
     [(''db'', \<lparr>Healthy = True, Message = ''ok'', Cause = None\<rparr>),
      (''queue'', \<lparr>Healthy = True, Message = [], Cause = None\<rparr>)]"

section \<open>Package gows: the server command\<close>

text \<open>
  \<^verbatim>\<open>ServerCommand.Run\<close> works through interfaces whose implementations lie outside:
  the configuration factory, the server factory, the bundles run by \<^verbatim>\<open>bootstrap.run\<close>,
  the application, and the server that the factory returns. Each is a field of the
  bootstrap here. The environment is shared by pointer, so each call returns it updated.
\<close>

record ('c, 'e, 's) gows_Bootstrap =
  gows_Arguments :: "string list"
  BuildConfiguration :: "string list \<Rightarrow> error + 'c"
  Application_Name :: string
  NewEnvironment :: "string \<Rightarrow> 'e"
  BuildServer :: "'c \<Rightarrow> 'e \<Rightarrow> (error + 's) \<times> 'e"
  run_bundles :: "'c \<Rightarrow> 'e \<Rightarrow> error option \<times> 'e"
  Application_Run :: "'c \<Rightarrow> 'e \<Rightarrow> error option \<times> 'e"
  Server_Start :: "'s \<Rightarrow> 'e \<Rightarrow> error option outcome"

datatype step = ParseConfiguration | BuildTheServer | RunBundles | RunApplication | StartServer

text \<open>
  \<^verbatim>\<open>func (command *ServerCommand) Run(bootstrap *Bootstrap) error\<close>, returning its
  result and the calls it made, in order. The slice expression
  \<^verbatim>\<open>bootstrap.Arguments[1:]\<close> panics on an empty argument vector.
\<close>

definition ServerCommand_Run ::
  "('c, 'e, 's) gows_Bootstrap \<Rightarrow> error option outcome \<times> step list" where
  "ServerCommand_Run bootstrap =
     (case gows_Arguments bootstrap of
        [] \<Rightarrow> (Panic ''runtime error: slice bounds out of range'', [])
      | _ # args \<Rightarrow>
     (case BuildConfiguration bootstrap args of
        Inl err \<Rightarrow> (Returned (Some err), [ParseConfiguration])
      | Inr config \<Rightarrow>
     (let environment = NewEnvironment bootstrap (Application_Name bootstrap)
      in case BuildServer bootstrap config environment of
        (Inl err, _) \<Rightarrow> (Returned (Some err), [ParseConfiguration, BuildTheServer])
      | (Inr server, environment1) \<Rightarrow>
     (case run_bundles bootstrap config environment1 of
        (Some err, _) \<Rightarrow>
          (Returned (Some err), [ParseConfiguration, BuildTheServer, RunBundles])
      | (None, environment2) \<Rightarrow>
     (case Application_Run bootstrap config environment2 of
        (Some err, _) \<Rightarrow>
          (Returned (Some err),
           [ParseConfiguration, BuildTheServer, RunBundles, RunApplication])
      | (None, environment3) \<Rightarrow>
          (Server_Start bootstrap server environment3,
           [ParseConfiguration, BuildTheServer, RunBundles, RunApplication,
            StartServer]))))))"

text \<open>
  A bootstrap to run the model on: the configuration is the argument list, the
  environment counts the calls that touched it, and each collaborator fails when its
  name is among the arguments.
\<close>

definition demo_bootstrap :: "string list \<Rightarrow> (string list, nat, unit) gows_Bootstrap" where
  "demo_bootstrap args =
     \<lparr>gows_Arguments = args,
      BuildConfiguration =
        (\<lambda>a. if ''bad-config'' \<in> set a then Inl ''configuration: parse error'' else Inr a),
      Application_Name = ''demo'',
      NewEnvironment = (\<lambda>name. 0),
      BuildServer =
        (\<lambda>c e. (if ''bad-server'' \<in> set c then Inl ''server: cannot build'' else Inr (), Suc e)),
      run_bundles =
        (\<lambda>c e. (if ''bad-bundle'' \<in> set c then Some ''bundle: failed'' else None, Suc e)),
      Application_Run =
        (\<lambda>c e. (if ''bad-app'' \<in> set c then Some ''application: failed'' else None, Suc e)),
      Server_Start = (\<lambda>s e. Returned None)\<rparr>"

section \<open>Package gomelon: command dispatch\<close>

text \<open>
  A registered command: its name, its description, and what its \<^verbatim>\<open>Run\<close> returns. \<^verbatim>\<open>Run\<close>
  receives the bootstrap; the model passes it the argument vector of the bootstrap.
\<close>

record Command =
  Name :: string
  Description :: string
  cmd_Run :: "string list \<Rightarrow> error option outcome"

record Bootstrap =
  Arguments :: "string list"
  commands :: "Command list"

text \<open>
  The application, as far as \<^verbatim>\<open>Run\<close> uses it: \<^verbatim>\<open>Initialize\<close> receives the bootstrap by
  pointer and may change it, in particular register commands.
\<close>

record Application =
  Initialize :: "Bootstrap \<Rightarrow> Bootstrap"

text \<open>The builtin \<^verbatim>\<open>println\<close> with three arguments writes them separated by blanks.\<close>

definition println3 :: "string \<Rightarrow> string \<Rightarrow> string \<Rightarrow> string" where
  "println3 a b c = a @ '' '' @ b @ '' '' @ c"

text \<open>\<^verbatim>\<open>func printHelp(bootstrap *Bootstrap)\<close>; the output is a list of lines.\<close>

fun printHelp_loop :: "Command list \<Rightarrow> string list \<Rightarrow> string list" where
  "printHelp_loop [] out = out"
| "printHelp_loop (command # rest) out =
     printHelp_loop rest (out @ [println3 (Name command) '':'' (Description command)])"

definition printHelp :: "Bootstrap \<Rightarrow> string list \<Rightarrow> string list" where
  "printHelp bootstrap out = printHelp_loop (commands bootstrap) (out @ [''Available commands:''])"

record run_result =
  returned :: "error option outcome"
  printed :: "string list"
  invoked :: "Command option"

text \<open>The loop \<^verbatim>\<open>for _, command := range bootstrap.commands\<close> of \<^verbatim>\<open>Run\<close>.\<close>

fun Run_loop :: "Command list \<Rightarrow> string \<Rightarrow> Command option" where
  "Run_loop [] arg0 = None"
| "Run_loop (command # rest) arg0 =
     (if Name command = arg0 then Some command else Run_loop rest arg0)"

text \<open>
  \<^verbatim>\<open>func Run(app Application, args []string) error\<close>. \<^verbatim>\<open>NewBootstrap\<close> is declared
  elsewhere in the package and is a parameter.
\<close>

definition Run :: "(Application \<Rightarrow> Bootstrap) \<Rightarrow> Application \<Rightarrow> string list \<Rightarrow> run_result" where
  "Run NewBootstrap app args =
     (let bootstrap0 = NewBootstrap app;
          bootstrap1 = bootstrap0\<lparr>Arguments := args\<rparr>;
          bootstrap = Initialize app bootstrap1
      in case (if length args > 0 then Run_loop (commands bootstrap) (hd args) else None) of
           Some command \<Rightarrow>
             \<lparr>returned = cmd_Run command (Arguments bootstrap), printed = [],
              invoked = Some command\<rparr>
         | None \<Rightarrow>
             \<lparr>returned = Returned None, printed = printHelp bootstrap [], invoked = None\<rparr>)"

text \<open>The bootstrap as \<open>Run\<close> has it after \<^verbatim>\<open>app.Initialize\<close>, and its registered commands.\<close>

definition initialized :: "(Application \<Rightarrow> Bootstrap) \<Rightarrow> Application \<Rightarrow> string list \<Rightarrow> Bootstrap" where
  "initialized NewBootstrap app args = Initialize app ((NewBootstrap app)\<lparr>Arguments := args\<rparr>)"

definition registered_commands ::
  "(Application \<Rightarrow> Bootstrap) \<Rightarrow> Application \<Rightarrow> string list \<Rightarrow> Command list" where
  "registered_commands NewBootstrap app args = commands (initialized NewBootstrap app args)"

definition help_line :: "Command \<Rightarrow> string" where
  "help_line command = Name command @ '' : '' @ Description command"

text \<open>An application with two commands to run the model on.\<close>

definition server_command :: Command where
  "server_command =
     \<lparr>Name = ''server'', Description = ''Runs the application as an HTTP server'',
      cmd_Run = (\<lambda>args. Returned (Some ''listen tcp :8080: address already in use''))\<rparr>"

definition check_command :: Command where
  "check_command =
     \<lparr>Name = ''check'', Description = ''Parses and validates the configuration file'',
      cmd_Run = (\<lambda>args. Returned None)\<rparr>"

definition demo_NewBootstrap :: "Application \<Rightarrow> Bootstrap" where
  "demo_NewBootstrap app = \<lparr>Arguments = [], commands = [check_command]\<rparr>"

definition demo_app :: Application where
  "demo_app = \<lparr>Initialize = (\<lambda>b. b\<lparr>commands := commands b @ [server_command]\<rparr>)\<rparr>"

section \<open>Package server: wiring of the common filters\<close>

text \<open>
  The filters that \<^verbatim>\<open>AddFilters\<close> handles: the \<^verbatim>\<open>noRequestLog\<close> filter, a request log
  built by a configured factory (named by a label), and the filter that
  \<^verbatim>\<open>recovery.NewFilter()\<close> returns.
\<close>

datatype Filter = noRequestLog | builtRequestLog string | recoveryFilter

text \<open>
  What \<^verbatim>\<open>f.RequestLog.Value()\<close> can be: nil, a \<^verbatim>\<open>RequestLogFactory\<close> (given by its
  \<^verbatim>\<open>Build\<close>), or a value of another type (given by its \<^verbatim>\<open>%#v\<close> rendering).
\<close>

datatype 'e RequestLogValue =
  NilValue | FactoryValue "'e \<Rightarrow> error + Filter" | OtherValue string

record 'e commonFactory =
  RequestLog :: "'e RequestLogValue"

text \<open>\<^verbatim>\<open>func (f *commonFactory) getRequestLog(env *core.Environment) (filter.Filter, error)\<close>\<close>

definition getRequestLog :: "'e commonFactory \<Rightarrow> 'e \<Rightarrow> error + Filter" where
  "getRequestLog f env =
     (case RequestLog f of
        NilValue \<Rightarrow> Inr noRequestLog
      | FactoryValue build \<Rightarrow> build env
      | OtherValue rendering \<Rightarrow> Inl (''server: unsupported request log '' @ rendering))"

record Handler =
  FilterChain :: "Filter list"

text \<open>
  Modelled from the spec: \<^verbatim>\<open>FilterChain.Add\<close> of package filter is not in the source
  read here. The spec describes the filter chain as an ordered pipeline of stages to which the
  core appends stages.
\<close>

definition Chain_Add :: "Filter list \<Rightarrow> Filter \<Rightarrow> Filter list" where
  "Chain_Add chain f = chain @ [f]"

text \<open>
  \<^verbatim>\<open>AddFilters\<close> receives pointers to handlers. The handlers live in a store, a map from
  addresses to handlers; the argument is a list of addresses, which may repeat. An
  address outside the store is a nil pointer.
\<close>

type_synonym handler_store = "nat \<rightharpoonup> Handler"

fun AddFilters_loop ::
  "Filter \<Rightarrow> Filter \<Rightarrow> nat list \<Rightarrow> handler_store \<Rightarrow> handler_store outcome" where
  "AddFilters_loop requestLogFilter recoveryF [] store = Returned store"
| "AddFilters_loop requestLogFilter recoveryF (h # handlers) store =
     (case store h of
        None \<Rightarrow> Panic ''runtime error: invalid memory address or nil pointer dereference''
      | Some handler \<Rightarrow>
          (let handler1 = handler\<lparr>FilterChain := Chain_Add (FilterChain handler) requestLogFilter\<rparr>;
               handler2 = handler1\<lparr>FilterChain := Chain_Add (FilterChain handler1) recoveryF\<rparr>
           in AddFilters_loop requestLogFilter recoveryF handlers (store(h \<mapsto> handler2))))"

text \<open>
  \<^verbatim>\<open>func (f *commonFactory) AddFilters(env *core.Environment, handlers ...*Handler) error\<close>
\<close>

definition AddFilters ::
  "'e commonFactory \<Rightarrow> 'e \<Rightarrow> nat list \<Rightarrow> handler_store \<Rightarrow> (error option \<times> handler_store) outcome" where
  "AddFilters f env handlers store =
     (case getRequestLog f env of
        Inl err \<Rightarrow> Returned (Some err, store)
      | Inr requestLogFilter \<Rightarrow>
          (case AddFilters_loop requestLogFilter recoveryFilter handlers store of
             Returned store' \<Rightarrow> Returned (None, store')
           | Blocked \<Rightarrow> Blocked
           | Panic msg \<Rightarrow> Panic msg))"

text \<open>
  Modelled from the spec: the execution of the filter chain belongs to package filter
  and is not in the source read here. By the spec the chain is an ordered pipeline of
  stages, and appending the request log filter and then the recovery filter makes the
  recovery stage wrap the request log stage: a stage wraps the stages appended before
  it, around the handler's own endpoint.
\<close>

datatype pipeline = Endpoint | Wrap Filter pipeline

fun Chain_Build_onto :: "pipeline \<Rightarrow> Filter list \<Rightarrow> pipeline" where
  "Chain_Build_onto inner [] = inner"
| "Chain_Build_onto inner (f # chain) = Chain_Build_onto (Wrap f inner) chain"

definition Chain_Build :: "Filter list \<Rightarrow> pipeline" where
  "Chain_Build chain = Chain_Build_onto Endpoint chain"

text \<open>The pipeline of the handler at an address after a call that returned.\<close>

definition pipeline_after :: "(error option \<times> handler_store) outcome \<Rightarrow> nat \<Rightarrow> pipeline option" where
  "pipeline_after r h =
     (case r of
        Returned (_, store) \<Rightarrow> map_option (\<lambda>handler. Chain_Build (FilterChain handler)) (store h)
      | _ \<Rightarrow> None)"

text \<open>The filter chain of the handler at an address after a call that returned.\<close>

definition chain_after :: "(error option \<times> handler_store) outcome \<Rightarrow> nat \<Rightarrow> Filter list option" where
  "chain_after r h =
     (case r of Returned (_, store) \<Rightarrow> map_option FilterChain (store h) | _ \<Rightarrow> None)"

definition append_pairs :: "nat \<Rightarrow> Filter \<Rightarrow> Handler \<Rightarrow> Handler" where
  "append_pairs n requestLogFilter handler =
     handler\<lparr>FilterChain :=
       FilterChain handler @ concat (replicate n [requestLogFilter, recoveryFilter])\<rparr>"

definition two_handlers :: handler_store where
  "two_handlers = [0 \<mapsto> \<lparr>FilterChain = []\<rparr>, 1 \<mapsto> \<lparr>FilterChain = [builtRequestLog ''audit'']\<rparr>]"

definition unsupported_factory :: "unit commonFactory" where
  "unsupported_factory = \<lparr>RequestLog = OtherValue ''server.RequestLogConfiguration{}''\<rparr>"

definition default_factory :: "unit commonFactory" where
  "default_factory = \<lparr>RequestLog = NilValue\<rparr>"

section \<open>The admin environment\<close>

text \<open>
  Tasks: the two default tasks of package core and tasks of the application, which are
  known by their names.
\<close>

datatype Task = GCTask | LogTask | AppTask string

abbreviation gcTaskName :: string where "gcTaskName \<equiv> ''gc''"
abbreviation logTaskName :: string where "logTaskName \<equiv> ''log''"

fun Task_Name :: "Task \<Rightarrow> string" where
  "Task_Name GCTask = gcTaskName"
| "Task_Name LogTask = logTaskName"
| "Task_Name (AppTask name) = name"

text \<open>The handlers that the admin environment registers.\<close>

datatype http_Handler =
  handleAdminPing
| handleAdminRuntime
| HealthCheckHandler health_results
| AdminHandler string
| TaskHandler Task

abbreviation pingUri :: string where "pingUri \<equiv> ''/ping''"
abbreviation runtimeUri :: string where "runtimeUri \<equiv> ''/runtime''"
abbreviation healthCheckUri :: string where "healthCheckUri \<equiv> ''/healthcheck''"
abbreviation tasksUri :: string where "tasksUri \<equiv> ''/tasks''"

subsection \<open>Package core\<close>

text \<open>
  \<^verbatim>\<open>ServerHandler\<close> is an interface whose implementation lies in another package.
  The model of it keeps its path prefix and the calls of \<^verbatim>\<open>Handle\<close> it has received, in
  order: method, pattern and handler.
\<close>

record ServerHandler_calls =
  PathPrefix :: string
  handled :: "(string \<times> string \<times> http_Handler) list"

definition Handle :: "string \<Rightarrow> string \<Rightarrow> http_Handler \<Rightarrow> ServerHandler_calls \<Rightarrow> ServerHandler_calls" where
  "Handle method pattern handler sh = sh\<lparr>handled := handled sh @ [(method, pattern, handler)]\<rparr>"

record AdminEnvironment =
  ServerHandler :: "ServerHandler_calls option"
  HealthChecks :: health_results
  tasks :: "Task list"

text \<open>\<^verbatim>\<open>func (env *AdminEnvironment) AddTask(task ...Task)\<close>\<close>

definition AddTask :: "AdminEnvironment \<Rightarrow> Task list \<Rightarrow> AdminEnvironment" where
  "AddTask env task = env\<lparr>tasks := tasks env @ task\<rparr>"

text \<open>
  \<^verbatim>\<open>func NewAdminEnvironment() *AdminEnvironment\<close>; \<^verbatim>\<open>health.NewRegistry()\<close> is an empty
  registry, and the \<^verbatim>\<open>ServerHandler\<close> field is left nil.
\<close>

definition NewAdminEnvironment :: AdminEnvironment where
  "NewAdminEnvironment =
     (let env = \<lparr>ServerHandler = None, HealthChecks = [], tasks = []\<rparr>
      in AddTask env [GCTask, LogTask])"

text \<open>The loop \<^verbatim>\<open>for _, task := range env.tasks\<close> of \<^verbatim>\<open>onStarting\<close>.\<close>

fun handle_tasks :: "Task list \<Rightarrow> ServerHandler_calls \<Rightarrow> ServerHandler_calls" where
  "handle_tasks [] sh = sh"
| "handle_tasks (task # rest) sh =
     (let path = tasksUri @ ''/'' @ Task_Name task
      in handle_tasks rest (Handle ''POST'' path (TaskHandler task) sh))"

text \<open>
  \<^verbatim>\<open>func (env *AdminEnvironment) onStarting()\<close>. The two closing calls \<^verbatim>\<open>logTasks\<close> and
  \<^verbatim>\<open>logHealthChecks\<close> only write to the logger and are left out. A nil \<^verbatim>\<open>ServerHandler\<close>
  makes the first call panic.
\<close>

definition onStarting :: "AdminEnvironment \<Rightarrow> AdminEnvironment outcome" where
  "onStarting env =
     (case ServerHandler env of
        None \<Rightarrow> Panic ''runtime error: invalid memory address or nil pointer dereference''
      | Some sh \<Rightarrow>
          (let sh1 = Handle ''GET'' pingUri handleAdminPing sh;
               sh2 = Handle ''GET'' runtimeUri handleAdminRuntime sh1;
               sh3 = Handle ''GET'' healthCheckUri (HealthCheckHandler (HealthChecks env)) sh2;
               sh4 = Handle ''GET'' ''/'' (AdminHandler (PathPrefix sh3)) sh3;
               sh5 = handle_tasks (tasks env) sh4
           in Returned (env\<lparr>ServerHandler := Some sh5\<rparr>)))"

text \<open>The \<^verbatim>\<open>Handle\<close> calls that the handler of an environment has received.\<close>

definition calls_of :: "AdminEnvironment outcome \<Rightarrow> (string \<times> string \<times> http_Handler) list" where
  "calls_of r =
     (case r of
        Returned env \<Rightarrow> (case ServerHandler env of Some sh \<Rightarrow> handled sh | None \<Rightarrow> [])
      | _ \<Rightarrow> [])"

text \<open>The fixed routes of the admin page, as the specification lists them.\<close>

definition builtin_routes :: "string \<Rightarrow> health_results \<Rightarrow> Task list \<Rightarrow> (string \<times> string \<times> http_Handler) list" where
  "builtin_routes pfx checks ts =
     [(''GET'', ''/ping'', handleAdminPing),
      (''GET'', ''/runtime'', handleAdminRuntime),
      (''GET'', ''/healthcheck'', HealthCheckHandler checks),
      (''GET'', ''/'', AdminHandler pfx)]
     @ map (\<lambda>t. (''POST'', ''/tasks/'' @ Task_Name t, TaskHandler t)) ts"

text \<open>
  \<^verbatim>\<open>func (*GCTask) ServeHTTP(w, r)\<close>, on the response writer and the sequence of effects
  so far.
\<close>

datatype effect = Wrote string | RanGC

definition runtime_GC :: "effect list \<Rightarrow> effect list" where
  "runtime_GC fx = fx @ [RanGC]"

definition GCTask_ServeHTTP :: "ResponseWriter \<times> effect list \<Rightarrow> ResponseWriter \<times> effect list" where
  "GCTask_ServeHTTP state =
     (let (w, fx) = state;
          (w1, fx1) = (Write (''Running GC...'' @ NL) w, fx @ [Wrote (''Running GC...'' @ NL)]);
          fx2 = runtime_GC fx1;
          (w2, fx3) = (Write (''Done!'' @ NL) w1, fx2 @ [Wrote (''Done!'' @ NL)])
      in (w2, fx3))"

subsection \<open>Package gows\<close>

text \<open>
  \<^verbatim>\<open>http.ServeMux\<close> belongs to the Go library: \<^verbatim>\<open>Handle\<close> panics on an empty pattern and
  when a handler is already registered for the pattern. The mux is the map of its
  registered patterns.
\<close>

type_synonym ServeMux = "string \<rightharpoonup> http_Handler"

definition ServeMux_Handle :: "string \<Rightarrow> http_Handler \<Rightarrow> ServeMux \<Rightarrow> ServeMux outcome" where
  "ServeMux_Handle pattern handler mux =
     (if pattern = [] then Panic ''http: invalid pattern''
      else if mux pattern \<noteq> None then Panic (''http: multiple registrations for '' @ pattern)
      else Returned (mux(pattern \<mapsto> handler)))"

record DefaultServerHandler =
  ContextPath :: string
  ServeMux :: ServeMux

text \<open>\<^verbatim>\<open>func NewDefaultServerHandler() *DefaultServerHandler\<close>\<close>

definition NewDefaultServerHandler :: DefaultServerHandler where
  "NewDefaultServerHandler = \<lparr>ContextPath = [], ServeMux = Map.empty\<rparr>"

text \<open>\<^verbatim>\<open>func (server *DefaultServerHandler) Handle(pattern string, handler http.Handler)\<close>\<close>

definition DefaultServerHandler_Handle ::
  "string \<Rightarrow> http_Handler \<Rightarrow> DefaultServerHandler \<Rightarrow> DefaultServerHandler outcome" where
  "DefaultServerHandler_Handle pattern handler server =
     (let path = ContextPath server @ pattern
      in case ServeMux_Handle path handler (ServeMux server) of
           Returned mux \<Rightarrow> Returned (server\<lparr>ServeMux := mux\<rparr>)
         | Blocked \<Rightarrow> Blocked
         | Panic msg \<Rightarrow> Panic msg)"

text \<open>Sequencing of calls that may panic.\<close>

fun and_then :: "'a outcome \<Rightarrow> ('a \<Rightarrow> 'b outcome) \<Rightarrow> 'b outcome" where
  "and_then (Returned x) f = f x"
| "and_then Blocked f = Blocked"
| "and_then (Panic msg) f = Panic msg"

record gows_AdminEnvironment =
  gows_ServerHandler :: "DefaultServerHandler option"
  HealthCheckRegistry :: health_results

text \<open>
  \<^verbatim>\<open>func (env *AdminEnvironment) addHandlers()\<close> of package gows, over the
  \<^verbatim>\<open>DefaultServerHandler\<close> of the same package; \<^verbatim>\<open>ContextPath()\<close> reads the field of that name.
\<close>

definition addHandlers :: "gows_AdminEnvironment \<Rightarrow> gows_AdminEnvironment outcome" where
  "addHandlers env =
     (case gows_ServerHandler env of
        None \<Rightarrow> Panic ''runtime error: invalid memory address or nil pointer dereference''
      | Some sh \<Rightarrow>
          and_then (DefaultServerHandler_Handle pingUri handleAdminPing sh) (\<lambda>sh1.
          and_then (DefaultServerHandler_Handle runtimeUri handleAdminRuntime sh1) (\<lambda>sh2.
          and_then (DefaultServerHandler_Handle healthCheckUri
                      (HealthCheckHandler (HealthCheckRegistry env)) sh2) (\<lambda>sh3.
          and_then (DefaultServerHandler_Handle ''/'' (AdminHandler (ContextPath sh3)) sh3) (\<lambda>sh4.
          Returned (env\<lparr>gows_ServerHandler := Some sh4\<rparr>))))))"

text \<open>The patterns registered in the mux of an environment.\<close>

definition patterns_of :: "gows_AdminEnvironment outcome \<Rightarrow> string set" where
  "patterns_of r =
     (case r of
        Returned env \<Rightarrow> (case gows_ServerHandler env of Some sh \<Rightarrow> dom (ServeMux sh) | None \<Rightarrow> {})
      | _ \<Rightarrow> {})"

text \<open>Admin environments to run the model on.\<close>

definition gows_admin :: gows_AdminEnvironment where
  "gows_admin =
     \<lparr>gows_ServerHandler = Some (NewDefaultServerHandler\<lparr>ContextPath := ''/admin''\<rparr>),
      HealthCheckRegistry = []\<rparr>"

definition core_admin :: AdminEnvironment where
  "core_admin =
     NewAdminEnvironment\<lparr>ServerHandler := Some \<lparr>PathPrefix = ''/admin'', handled = []\<rparr>\<rparr>"

section \<open>Properties of the server\<close>

lemma Start_loop_nils:
  "list_all is_nil chan \<Longrightarrow> length chan \<le> n \<Longrightarrow>
   Start_loop n server chan tr =
     \<lparr>start_result = (if length chan = n then Returned None else Blocked),
      trace = tr @ map (\<lambda>d. Received (fst d) (snd d)) chan,
      unreceived = [], server_after = server\<rparr>"
proof (induction chan arbitrary: n tr)
  case Nil
  then show ?case by (cases n) simp_all
next
  case (Cons d chan)
  then obtain i where i: "n = Suc i" by (cases n) auto
  obtain k err where d: "d = (k, err)" by (cases d)
  from Cons.prems have nil: "err = None" and rest: "list_all is_nil chan"
    by (auto simp: d is_nil_def list_all_iff)
  from Cons.prems have len: "length chan \<le> i" by (simp add: i)
  show ?case
    using Cons.IH [OF rest len, of "tr @ [Received k None]"]
    by (simp add: i d nil)
qed

lemma Start_loop_error:
  "list_all is_nil pre \<Longrightarrow> length pre < n \<Longrightarrow>
   Start_loop n server (pre @ (k, Some e) # rest) tr =
     \<lparr>start_result = Returned (Some e),
      trace = tr @ map (\<lambda>d. Received (fst d) (snd d)) pre @ [Received k (Some e), StopCalled],
      unreceived = rest, server_after = server\<rparr>"
proof (induction pre arbitrary: n tr)
  case Nil
  then obtain i where i: "n = Suc i" by (cases n) auto
  show ?case by (simp add: i Stop_def)
next
  case (Cons d pre)
  then obtain i where i: "n = Suc i" by (cases n) auto
  obtain k' err where d: "d = (k', err)" by (cases d)
  from Cons.prems have nil: "err = None" and rest: "list_all is_nil pre"
    by (auto simp: d is_nil_def list_all_iff)
  from Cons.prems have len: "length pre < i" by (simp add: i)
  show ?case
    using Cons.IH [OF rest len, of "tr @ [Received k' None]"]
    by (simp add: i d nil)
qed

lemma received_of_append:
  "received_of (tr @ tr') = received_of tr @ received_of tr'"
  by (induction tr rule: received_of.induct) simp_all

lemma received_of_map_Received:
  "received_of (map (\<lambda>d. Received (fst d) (snd d)) ds) = ds"
  by (induction ds) auto

lemma schedule_ok_length:
  assumes "schedule_ok server order"
  shows "length order \<le> length (Connectors server)"
proof -
  from assms have d: "distinct order"
    and s: "set order \<subseteq> {..<length (Connectors server)}"
    by (auto simp: schedule_ok_def list_all_iff)
  have "length order = card (set order)"
    using d by (simp add: distinct_card)
  also have "\<dots> \<le> card {..<length (Connectors server)}"
    using s by (intro card_mono) auto
  finally show ?thesis by simp
qed

text \<open>
  C1. With N >= 1 connectors, when the first result delivered is the non-nil error of
  connector k, Start returns exactly that error, and Stop has been invoked exactly once
  (after the receive, before the return).
\<close>

theorem Start_first_error_wins:
  assumes "schedule_ok server (k # rest)"
    and "start (Connectors server ! k) = Some e"
  shows "start_result (Start server (k # rest)) = Returned (Some e)
       \<and> count_list (trace (Start server (k # rest))) StopCalled = 1
       \<and> trace (Start server (k # rest)) = [Received k (Some e), StopCalled]"
proof -
  from assms(1) have "k < length (Connectors server)"
    by (simp add: schedule_ok_def)
  then obtain n where n: "length (Connectors server) = Suc n"
    by (cases "length (Connectors server)") auto
  have "Start server (k # rest) =
          \<lparr>start_result = Returned (Some e), trace = [Received k (Some e), StopCalled],
           unreceived = deliveries server rest, server_after = server\<rparr>"
    using assms(2) by (simp add: Start_def n deliveries_def Stop_def)
  then show ?thesis by simp
qed

theorem Start_first_error_wins_witness:
  "schedule_ok server_one_fails [1, 0]
   \<and> start (Connectors server_one_fails ! 1) = Some ''listen tcp :8081: address already in use''
   \<and> start_result (Start server_one_fails [1, 0])
       = Returned (Some ''listen tcp :8081: address already in use'')
   \<and> count_list (trace (Start server_one_fails [1, 0])) StopCalled = 1"
proof -
  have ok: "schedule_ok server_one_fails [1, 0]"
    by (simp add: schedule_ok_def server_one_fails_def)
  have st: "start (Connectors server_one_fails ! 1)
              = Some ''listen tcp :8081: address already in use''"
    by (simp add: start_def server_one_fails_def http_connector_def newServerConnector_def)
  from Start_first_error_wins [OF ok st] ok st show ?thesis by simp
qed

text \<open>
  C2, as stated: all N results sent on the channel are received by Start, none is left
  unreceived. It fails when a second result follows the first non-nil error: with two
  connectors that both fail, Start returns after one receive and the other send stays
  pending.
\<close>

theorem Start_drains_all_counterexample:
  "schedule_ok server_both_fail [0, 1]
   \<and> length [0, 1 :: nat] = length (Connectors server_both_fail)
   \<and> unreceived (Start server_both_fail [0, 1])
       = [(1, Some ''listen tcp :81: permission denied'')]
   \<and> length (received_of (trace (Start server_both_fail [0, 1]))) = 1"
  by (simp add: schedule_ok_def server_both_fail_def Start_def deliveries_def start_def
        http_connector_def newServerConnector_def Stop_def)

lemma Start_received_prefix:
  assumes "schedule_ok server order"
  shows "received_of (trace (Start server order))
           = takeWhile is_nil (deliveries server order)
             @ take 1 (dropWhile is_nil (deliveries server order))
       \<and> unreceived (Start server order) = drop 1 (dropWhile is_nil (deliveries server order))
       \<and> (list_all is_nil (deliveries server order) \<longrightarrow>
            received_of (trace (Start server order)) = deliveries server order
            \<and> unreceived (Start server order) = [])"
proof -
  let ?ds = "deliveries server order"
  have len: "length ?ds \<le> length (Connectors server)"
    using schedule_ok_length [OF assms] by (simp add: deliveries_def)
  show ?thesis
  proof (cases "list_all is_nil ?ds")
    case True
    then have tw: "takeWhile is_nil ?ds = ?ds" and dw: "dropWhile is_nil ?ds = []"
      by (simp_all add: list_all_iff)
    show ?thesis
      unfolding tw dw Start_def Start_loop_nils [OF True len]
      by (simp add: received_of_map_Received)
  next
    case False
    then obtain d rest where dw: "dropWhile is_nil ?ds = d # rest"
      by (cases "dropWhile is_nil ?ds") (auto simp: list_all_iff dropWhile_eq_Nil_conv)
    obtain k err where d: "d = (k, err)" by (cases d)
    have "\<not> is_nil d"
      using dw by (metis hd_dropWhile list.distinct(1) list.sel(1))
    then obtain e where e: "err = Some e"
      by (auto simp: d is_nil_def)
    let ?pre = "takeWhile is_nil ?ds"
    have split: "?ds = ?pre @ (k, Some e) # rest"
      using takeWhile_dropWhile_id [of is_nil ?ds] by (simp add: dw d e)
    have pre: "list_all is_nil ?pre"
      by (simp add: list_all_iff) (meson set_takeWhileD)
    have "length ?ds = length ?pre + Suc (length rest)"
      by (subst split) simp
    then have lt: "length ?pre < length (Connectors server)"
      using len by simp
    have run: "Start server order =
        \<lparr>start_result = Returned (Some e),
         trace = [] @ map (\<lambda>d. Received (fst d) (snd d)) ?pre @ [Received k (Some e), StopCalled],
         unreceived = rest, server_after = server\<rparr>"
      unfolding Start_def by (subst split) (rule Start_loop_error [OF pre lt])
    show ?thesis
      unfolding run dw using False
      by (simp add: received_of_append received_of_map_Received d e)
  qed
qed

text \<open>
  C2, amended. Start receives the delivered results in delivery order up to and
  including the first non-nil error and none after it; what was delivered after the
  first non-nil error stays unreceived. Hence all delivered results are received
  exactly when no result is delivered after the first non-nil error, as is the case
  when every delivered result is nil.
\<close>

theorem Start_receives_up_to_first_error:
  assumes "schedule_ok server order"
  shows "received_of (trace (Start server order))
           = takeWhile is_nil (deliveries server order)
             @ take 1 (dropWhile is_nil (deliveries server order))
       \<and> unreceived (Start server order) = drop 1 (dropWhile is_nil (deliveries server order))
       \<and> (list_all is_nil (deliveries server order) \<longrightarrow>
            received_of (trace (Start server order)) = deliveries server order
            \<and> unreceived (Start server order) = [])
       \<and> received_of (trace (Start server order)) @ unreceived (Start server order)
           = deliveries server order
       \<and> (unreceived (Start server order) = [])
           = (length (dropWhile is_nil (deliveries server order)) \<le> 1)
       \<and> (received_of (trace (Start server order)) = deliveries server order)
           = (length (dropWhile is_nil (deliveries server order)) \<le> 1)"
proof -
  let ?ds = "deliveries server order"
  note core = Start_received_prefix [OF assms]
  have rcv: "received_of (trace (Start server order))
               = takeWhile is_nil ?ds @ take 1 (dropWhile is_nil ?ds)"
    and unr: "unreceived (Start server order) = drop 1 (dropWhile is_nil ?ds)"
    using core by simp_all
  have "(takeWhile is_nil ?ds @ take 1 (dropWhile is_nil ?ds)) @ drop 1 (dropWhile is_nil ?ds)
          = takeWhile is_nil ?ds @ dropWhile is_nil ?ds"
    by simp
  then have whole: "received_of (trace (Start server order)) @ unreceived (Start server order)
                      = ?ds"
    unfolding rcv unr by simp
  have empty: "(unreceived (Start server order) = [])
                 = (length (dropWhile is_nil ?ds) \<le> 1)"
    unfolding unr by simp
  have "(received_of (trace (Start server order)) = ?ds)
          = (unreceived (Start server order) = [])"
    using whole by (metis append_Nil2 same_append_eq)
  then have full: "(received_of (trace (Start server order)) = ?ds)
                     = (length (dropWhile is_nil ?ds) \<le> 1)"
    using empty by simp
  show ?thesis
    using core whole empty full by blast
qed

theorem Start_receives_up_to_first_error_witness:
  "schedule_ok server_one_fails [0, 1]
   \<and> received_of (trace (Start server_one_fails [0, 1]))
       = [(0, None), (1, Some ''listen tcp :8081: address already in use'')]
   \<and> unreceived (Start server_one_fails [0, 1]) = []
   \<and> schedule_ok server_both_fail [1, 0]
   \<and> received_of (trace (Start server_both_fail [1, 0]))
       = [(1, Some ''listen tcp :81: permission denied'')]
   \<and> unreceived (Start server_both_fail [1, 0])
       = [(0, Some ''listen tcp :80: permission denied'')]
   \<and> schedule_ok server_clean [0, 1]
   \<and> list_all is_nil (deliveries server_clean [0, 1])
   \<and> received_of (trace (Start server_clean [0, 1])) = [(0, None), (1, None)]
   \<and> unreceived (Start server_clean [0, 1]) = []"
proof -
  have ok: "schedule_ok server_one_fails [0, 1]"
    by (simp add: schedule_ok_def server_one_fails_def)
  have ds: "deliveries server_one_fails [0, 1]
              = [(0, None), (1, Some ''listen tcp :8081: address already in use'')]"
    by (simp add: deliveries_def server_one_fails_def start_def http_connector_def
          newServerConnector_def)
  have tw: "takeWhile is_nil [(0::nat, None), (1, Some ''listen tcp :8081: address already in use'')]
              = [(0, None)]"
    by (simp add: is_nil_def)
  have dw: "dropWhile is_nil [(0::nat, None), (1, Some ''listen tcp :8081: address already in use'')]
              = [(1, Some ''listen tcp :8081: address already in use'')]"
    by (simp add: is_nil_def)
  have one: "received_of (trace (Start server_one_fails [0, 1]))
       = [(0, None), (1, Some ''listen tcp :8081: address already in use'')]
     \<and> unreceived (Start server_one_fails [0, 1]) = []"
    using Start_receives_up_to_first_error [OF ok] unfolding ds tw dw by simp
  have ok2: "schedule_ok server_both_fail [1, 0]"
    by (simp add: schedule_ok_def server_both_fail_def)
  have ds2: "deliveries server_both_fail [1, 0]
              = [(1, Some ''listen tcp :81: permission denied''),
                 (0, Some ''listen tcp :80: permission denied'')]"
    by (simp add: deliveries_def server_both_fail_def start_def http_connector_def
          newServerConnector_def)
  have tw2: "takeWhile is_nil [(1::nat, Some ''listen tcp :81: permission denied''),
                 (0, Some ''listen tcp :80: permission denied'')] = []"
    by (simp add: is_nil_def)
  have dw2: "dropWhile is_nil [(1::nat, Some ''listen tcp :81: permission denied''),
                 (0, Some ''listen tcp :80: permission denied'')]
              = [(1, Some ''listen tcp :81: permission denied''),
                 (0, Some ''listen tcp :80: permission denied'')]"
    by (simp add: is_nil_def)
  have two: "received_of (trace (Start server_both_fail [1, 0]))
       = [(1, Some ''listen tcp :81: permission denied'')]
     \<and> unreceived (Start server_both_fail [1, 0])
       = [(0, Some ''listen tcp :80: permission denied'')]"
    using Start_receives_up_to_first_error [OF ok2] unfolding ds2 tw2 dw2 by simp
  have ok3: "schedule_ok server_clean [0, 1]"
    by (simp add: schedule_ok_def server_clean_def)
  have ds3: "deliveries server_clean [0, 1] = [(0, None), (1, None)]"
    by (simp add: deliveries_def server_clean_def start_def http_connector_def
          newServerConnector_def)
  have nil3: "list_all is_nil [(0::nat, None :: error option), (1, None)]"
    by (simp add: is_nil_def)
  have three: "received_of (trace (Start server_clean [0, 1])) = [(0, None), (1, None)]
     \<and> unreceived (Start server_clean [0, 1]) = []"
    using Start_receives_up_to_first_error [OF ok3] nil3 unfolding ds3 by blast
  show ?thesis
    using ok one ok2 two ok3 nil3 three unfolding ds3 by blast
qed

text \<open>
  C3. Stop is a stub: it returns nil and closes no listener. At a server whose two
  connectors are listening, both are still listening after Stop.
\<close>

theorem Stop_closes_nothing:
  "Stop server_clean = (None, server_clean)
   \<and> map (\<lambda>c. listening (Server c)) (Connectors (snd (Stop server_clean))) = [True, True]"
  by (simp add: Stop_def server_clean_def http_connector_def newServerConnector_def)

text \<open>
  C4. With N >= 1 connectors whose start all return nil, and all N results delivered,
  Start returns nil after receiving all N results; Stop is not invoked.
\<close>

theorem Start_all_nil_returns_nil:
  assumes "schedule_ok server order"
    and "length order = length (Connectors server)"
    and "1 \<le> length (Connectors server)"
    and "\<forall>c \<in> set (Connectors server). start c = None"
  shows "start_result (Start server order) = Returned None
       \<and> length (received_of (trace (Start server order))) = length (Connectors server)
       \<and> received_of (trace (Start server order)) = map (\<lambda>k. (k, None)) order
       \<and> StopCalled \<notin> set (trace (Start server order))
       \<and> unreceived (Start server order) = []"
proof -
  have inb: "\<forall>k \<in> set order. k < length (Connectors server)"
    using assms(1) by (simp add: schedule_ok_def list_all_iff)
  have ds: "deliveries server order = map (\<lambda>k. (k, None)) order"
    using inb assms(4) by (simp add: deliveries_def)
  have nil: "list_all is_nil (map (\<lambda>k. (k, None :: error option)) order)"
    by (simp add: list_all_iff is_nil_def)
  have len: "length (map (\<lambda>k. (k, None :: error option)) order) \<le> length (Connectors server)"
    using assms(2) by simp
  have run: "Start server order =
               \<lparr>start_result = Returned None,
                trace = map (\<lambda>d. Received (fst d) (snd d)) (map (\<lambda>k. (k, None)) order),
                unreceived = [], server_after = server\<rparr>"
    unfolding Start_def ds Start_loop_nils [OF nil len] using assms(2) by simp
  have rcv: "received_of (trace (Start server order)) = map (\<lambda>k. (k, None)) order"
    unfolding run by (simp only: start_run.select_convs received_of_map_Received)
  have nostop: "StopCalled \<notin> set (trace (Start server order))"
    unfolding run by auto
  have res: "start_result (Start server order) = Returned None"
    and unr: "unreceived (Start server order) = []"
    unfolding run by simp_all
  show ?thesis
    using rcv nostop res unr assms(2) by simp
qed

theorem Start_all_nil_returns_nil_witness:
  "schedule_ok server_clean [1, 0]
   \<and> list_all (\<lambda>c. start c = None) (Connectors server_clean)
   \<and> start_result (Start server_clean [1, 0]) = Returned None
   \<and> received_of (trace (Start server_clean [1, 0])) = [(1, None), (0, None)]"
proof -
  have ok: "schedule_ok server_clean [1, 0]"
    by (simp add: schedule_ok_def server_clean_def)
  have len: "length [1, 0 :: nat] = length (Connectors server_clean)"
    by (simp add: server_clean_def)
  have n: "1 \<le> length (Connectors server_clean)"
    by (simp add: server_clean_def)
  have nil: "\<forall>c \<in> set (Connectors server_clean). start c = None"
    by (simp add: server_clean_def start_def http_connector_def newServerConnector_def)
  from Start_all_nil_returns_nil [OF ok len n nil] ok nil show ?thesis
    by (simp add: list_all_iff)
qed

section \<open>Properties of the health check page\<close>

lemma status_Write:
  "status (Write bytes w) = Some (case status w of None \<Rightarrow> StatusOK | Some code \<Rightarrow> code)"
  by (simp add: Write_def WriteHeader_def Let_def split: option.splits)

lemma body_Write: "body (Write bytes w) = body w @ bytes"
  by (simp add: Write_def WriteHeader_def Let_def split: option.splits)

lemma body_write_results:
  "body (write_results results w) = body w @ concat (map check_report results)"
proof (induction results w rule: write_results.induct)
  case (1 w)
  show ?case by simp
next
  case (2 name r rest w)
  show ?case
    by (simp add: "2.IH" Let_def body_Write check_report_def split: option.splits)
qed

lemma status_write_results:
  "results \<noteq> [] \<Longrightarrow>
   status (write_results results w)
     = Some (case status w of None \<Rightarrow> StatusOK | Some code \<Rightarrow> code)"
proof (induction results w rule: write_results.induct)
  case (1 w)
  then show ?case by simp
next
  case (2 name r rest w)
  show ?case
  proof (cases rest)
    case Nil
    then show ?thesis
      by (simp add: Let_def status_Write split: option.splits)
  next
    case (Cons a list)
    then have "rest \<noteq> []" by simp
    then show ?thesis
      by (simp add: "2.IH" Let_def status_Write split: option.splits)
  qed
qed

lemma isAllHealthy_list_all: "isAllHealthy results = list_all healthy_entry results"
  by (induction results rule: isAllHealthy.induct) (simp_all add: healthy_entry_def)

text \<open>
  C5. On a response whose status is not yet written, the health check page answers 501
  with the body "No health checks registered." when there are no checks, 500 when some
  check is unhealthy, 200 when all are healthy; with at least one check the body is the
  sequence of the reports of the checks: name, healthy flag, then the message if it is
  not empty and the cause if there is one.
\<close>

theorem healthcheck_status_and_body:
  assumes "status w = None"
  shows "(results = [] \<longrightarrow>
            status (HealthCheckHandler_ServeHTTP results w) = Some 501
            \<and> body (HealthCheckHandler_ServeHTTP results w)
                = body w @ ''No health checks registered.'')
       \<and> (results \<noteq> [] \<and> \<not> list_all healthy_entry results \<longrightarrow>
            status (HealthCheckHandler_ServeHTTP results w) = Some 500)
       \<and> (results \<noteq> [] \<and> list_all healthy_entry results \<longrightarrow>
            status (HealthCheckHandler_ServeHTTP results w) = Some 200)
       \<and> (results \<noteq> [] \<longrightarrow>
            body (HealthCheckHandler_ServeHTTP results w)
              = body w @ concat (map check_report results))"
proof (cases "results = []")
  case True
  then show ?thesis
    using assms
    by (simp add: HealthCheckHandler_ServeHTTP_def Header_Set_def WriteHeader_def Write_def)
next
  case False
  have st: "status (HealthCheckHandler_ServeHTTP results w)
              = Some (if isAllHealthy results then 200 else 500)"
    using False assms
    by (simp add: HealthCheckHandler_ServeHTTP_def Let_def status_write_results
          Header_Set_def WriteHeader_def)
  have bd: "body (HealthCheckHandler_ServeHTTP results w)
              = body w @ concat (map check_report results)"
    using False assms
    by (simp add: HealthCheckHandler_ServeHTTP_def Let_def body_write_results
          Header_Set_def WriteHeader_def)
  show ?thesis
    using False st bd by (simp add: isAllHealthy_list_all)
qed

theorem healthcheck_status_and_body_witness:
  "status new_ResponseWriter = None
   \<and> status (HealthCheckHandler_ServeHTTP [] new_ResponseWriter) = Some 501
   \<and> body (HealthCheckHandler_ServeHTTP [] new_ResponseWriter) = ''No health checks registered.''
   \<and> checks_one_bad \<noteq> [] \<and> \<not> list_all healthy_entry checks_one_bad
   \<and> status (HealthCheckHandler_ServeHTTP checks_one_bad new_ResponseWriter) = Some 500
   \<and> body (HealthCheckHandler_ServeHTTP checks_one_bad new_ResponseWriter)
       = ''db:'' @ NL @ TAB @ ''Healthy: true'' @ NL
         @ ''queue:'' @ NL @ TAB @ ''Healthy: false'' @ NL
         @ TAB @ ''Message: queue is full'' @ NL @ TAB @ ''Cause: timeout'' @ NL
   \<and> checks_all_good \<noteq> [] \<and> list_all healthy_entry checks_all_good
   \<and> status (HealthCheckHandler_ServeHTTP checks_all_good new_ResponseWriter) = Some 200"
proof -
  have fresh: "status new_ResponseWriter = None"
    by (simp add: new_ResponseWriter_def)
  have bad: "checks_one_bad \<noteq> [] \<and> \<not> list_all healthy_entry checks_one_bad"
    by (simp add: checks_one_bad_def healthy_entry_def)
  have good: "checks_all_good \<noteq> [] \<and> list_all healthy_entry checks_all_good"
    by (simp add: checks_all_good_def healthy_entry_def)
  have rep: "concat (map check_report checks_one_bad)
       = ''db:'' @ NL @ TAB @ ''Healthy: true'' @ NL
         @ ''queue:'' @ NL @ TAB @ ''Healthy: false'' @ NL
         @ TAB @ ''Message: queue is full'' @ NL @ TAB @ ''Cause: timeout'' @ NL"
    by (simp add: checks_one_bad_def check_report_def fmt_bool_def)
  have b0: "body new_ResponseWriter = []"
    by (simp add: new_ResponseWriter_def)
  show ?thesis
    using healthcheck_status_and_body [OF fresh, of "[]"]
      healthcheck_status_and_body [OF fresh, of checks_one_bad]
      healthcheck_status_and_body [OF fresh, of checks_all_good]
      fresh bad good
    unfolding rep b0 by simp
qed

section \<open>Properties of the server command\<close>

text \<open>
  C6. When the configuration factory, the server factory, the bundles or the application
  returns a non-nil error, the server command returns that error and makes no call of
  the server's Start.
\<close>

theorem ServerCommand_Run_aborts_before_Start:
  assumes "gows_Arguments b = a # args"
  shows "(BuildConfiguration b args = Inl e \<longrightarrow>
            fst (ServerCommand_Run b) = Returned (Some e)
            \<and> StartServer \<notin> set (snd (ServerCommand_Run b)))
       \<and> (BuildConfiguration b args = Inr c
            \<and> fst (BuildServer b c (NewEnvironment b (Application_Name b))) = Inl e \<longrightarrow>
            fst (ServerCommand_Run b) = Returned (Some e)
            \<and> StartServer \<notin> set (snd (ServerCommand_Run b)))
       \<and> (BuildConfiguration b args = Inr c
            \<and> BuildServer b c (NewEnvironment b (Application_Name b)) = (Inr s, e1)
            \<and> fst (run_bundles b c e1) = Some e \<longrightarrow>
            fst (ServerCommand_Run b) = Returned (Some e)
            \<and> StartServer \<notin> set (snd (ServerCommand_Run b)))
       \<and> (BuildConfiguration b args = Inr c
            \<and> BuildServer b c (NewEnvironment b (Application_Name b)) = (Inr s, e1)
            \<and> run_bundles b c e1 = (None, e2)
            \<and> fst (Application_Run b c e2) = Some e \<longrightarrow>
            fst (ServerCommand_Run b) = Returned (Some e)
            \<and> StartServer \<notin> set (snd (ServerCommand_Run b)))"
proof (intro conjI impI)
  assume "BuildConfiguration b args = Inl e"
  then show "fst (ServerCommand_Run b) = Returned (Some e)"
    and "StartServer \<notin> set (snd (ServerCommand_Run b))"
    using assms by (simp_all add: ServerCommand_Run_def)
next
  assume h: "BuildConfiguration b args = Inr c
    \<and> fst (BuildServer b c (NewEnvironment b (Application_Name b))) = Inl e"
  then obtain e1' where "BuildServer b c (NewEnvironment b (Application_Name b)) = (Inl e, e1')"
    by (cases "BuildServer b c (NewEnvironment b (Application_Name b))") auto
  with h show "fst (ServerCommand_Run b) = Returned (Some e)"
    and "StartServer \<notin> set (snd (ServerCommand_Run b))"
    using assms by (simp_all add: ServerCommand_Run_def)
next
  assume h: "BuildConfiguration b args = Inr c
    \<and> BuildServer b c (NewEnvironment b (Application_Name b)) = (Inr s, e1)
    \<and> fst (run_bundles b c e1) = Some e"
  then obtain e2' where "run_bundles b c e1 = (Some e, e2')"
    by (cases "run_bundles b c e1") auto
  with h show "fst (ServerCommand_Run b) = Returned (Some e)"
    and "StartServer \<notin> set (snd (ServerCommand_Run b))"
    using assms by (simp_all add: ServerCommand_Run_def)
next
  assume h: "BuildConfiguration b args = Inr c
    \<and> BuildServer b c (NewEnvironment b (Application_Name b)) = (Inr s, e1)
    \<and> run_bundles b c e1 = (None, e2)
    \<and> fst (Application_Run b c e2) = Some e"
  then obtain e3' where "Application_Run b c e2 = (Some e, e3')"
    by (cases "Application_Run b c e2") auto
  with h show "fst (ServerCommand_Run b) = Returned (Some e)"
    and "StartServer \<notin> set (snd (ServerCommand_Run b))"
    using assms by (simp_all add: ServerCommand_Run_def)
qed

theorem ServerCommand_Run_aborts_before_Start_witness:
  "gows_Arguments (demo_bootstrap [''server'', ''bad-bundle'']) = [''server'', ''bad-bundle'']
   \<and> BuildConfiguration (demo_bootstrap [''server'', ''bad-bundle'']) [''bad-bundle'']
       = Inr [''bad-bundle'']
   \<and> BuildServer (demo_bootstrap [''server'', ''bad-bundle'']) [''bad-bundle''] 0 = (Inr (), 1)
   \<and> fst (run_bundles (demo_bootstrap [''server'', ''bad-bundle'']) [''bad-bundle''] 1)
       = Some ''bundle: failed''
   \<and> fst (ServerCommand_Run (demo_bootstrap [''server'', ''bad-bundle'']))
       = Returned (Some ''bundle: failed'')
   \<and> StartServer \<notin> set (snd (ServerCommand_Run (demo_bootstrap [''server'', ''bad-bundle''])))
   \<and> fst (ServerCommand_Run (demo_bootstrap [''server'', ''bad-config'']))
       = Returned (Some ''configuration: parse error'')
   \<and> fst (ServerCommand_Run (demo_bootstrap [''server'', ''bad-server'']))
       = Returned (Some ''server: cannot build'')
   \<and> fst (ServerCommand_Run (demo_bootstrap [''server'', ''bad-app'']))
       = Returned (Some ''application: failed'')"
proof -
  let ?b = "demo_bootstrap [''server'', ''bad-bundle'']"
  have a: "gows_Arguments ?b = ''server'' # [''bad-bundle'']"
    by (simp add: demo_bootstrap_def)
  have c: "BuildConfiguration ?b [''bad-bundle''] = Inr [''bad-bundle'']"
    by (simp add: demo_bootstrap_def)
  have s: "BuildServer ?b [''bad-bundle''] (NewEnvironment ?b (Application_Name ?b)) = (Inr (), 1)"
    by (simp add: demo_bootstrap_def)
  have s0: "BuildServer ?b [''bad-bundle''] 0 = (Inr (), 1)"
    by (simp add: demo_bootstrap_def)
  have r: "fst (run_bundles ?b [''bad-bundle''] 1) = Some ''bundle: failed''"
    by (simp add: demo_bootstrap_def)
  have f3: "fst (ServerCommand_Run ?b) = Returned (Some ''bundle: failed'')
      \<and> StartServer \<notin> set (snd (ServerCommand_Run ?b))"
    using ServerCommand_Run_aborts_before_Start [OF a, of "''bundle: failed''" "[''bad-bundle'']" "()" 1 0]
      c s r by simp
  let ?b1 = "demo_bootstrap [''server'', ''bad-config'']"
  have a1: "gows_Arguments ?b1 = ''server'' # [''bad-config'']"
    by (simp add: demo_bootstrap_def)
  have c1: "BuildConfiguration ?b1 [''bad-config''] = Inl ''configuration: parse error''"
    by (simp add: demo_bootstrap_def)
  have f1: "fst (ServerCommand_Run ?b1) = Returned (Some ''configuration: parse error'')"
    using ServerCommand_Run_aborts_before_Start [OF a1, of "''configuration: parse error''"] c1
    by simp
  let ?b2 = "demo_bootstrap [''server'', ''bad-server'']"
  have a2: "gows_Arguments ?b2 = ''server'' # [''bad-server'']"
    by (simp add: demo_bootstrap_def)
  have c2: "BuildConfiguration ?b2 [''bad-server''] = Inr [''bad-server'']"
    by (simp add: demo_bootstrap_def)
  have s2: "fst (BuildServer ?b2 [''bad-server''] (NewEnvironment ?b2 (Application_Name ?b2)))
              = Inl ''server: cannot build''"
    by (simp add: demo_bootstrap_def)
  have f2: "fst (ServerCommand_Run ?b2) = Returned (Some ''server: cannot build'')"
    using ServerCommand_Run_aborts_before_Start
            [OF a2, of "''server: cannot build''" "[''bad-server'']"] c2 s2
    by simp
  let ?b3 = "demo_bootstrap [''server'', ''bad-app'']"
  have a3: "gows_Arguments ?b3 = ''server'' # [''bad-app'']"
    by (simp add: demo_bootstrap_def)
  have c3: "BuildConfiguration ?b3 [''bad-app''] = Inr [''bad-app'']"
    by (simp add: demo_bootstrap_def)
  have s3: "BuildServer ?b3 [''bad-app''] (NewEnvironment ?b3 (Application_Name ?b3)) = (Inr (), 1)"
    by (simp add: demo_bootstrap_def)
  have r3: "run_bundles ?b3 [''bad-app''] 1 = (None, 2)"
    by (simp add: demo_bootstrap_def)
  have p3: "fst (Application_Run ?b3 [''bad-app''] 2) = Some ''application: failed''"
    by (simp add: demo_bootstrap_def)
  have f4: "fst (ServerCommand_Run ?b3) = Returned (Some ''application: failed'')"
    using ServerCommand_Run_aborts_before_Start
            [OF a3, of "''application: failed''" "[''bad-app'']" "()" 1 2] c3 s3 r3 p3
    by simp
  show ?thesis
    using a c s0 r f3 f1 f2 f4 by simp
qed

section \<open>Properties of the command dispatch\<close>

lemma Run_loop_find: "Run_loop cmds arg0 = find (\<lambda>c. Name c = arg0) cmds"
  by (induction cmds) simp_all

lemma printHelp_loop_lines: "printHelp_loop cmds out = out @ map help_line cmds"
  by (induction cmds arbitrary: out) (simp_all add: println3_def help_line_def)

lemma Run_unfold:
  "Run NB app args =
     (case (if args = [] then None
            else find (\<lambda>c. Name c = hd args) (registered_commands NB app args)) of
        Some command \<Rightarrow>
          \<lparr>returned = cmd_Run command (Arguments (initialized NB app args)), printed = [],
           invoked = Some command\<rparr>
      | None \<Rightarrow>
          \<lparr>returned = Returned None,
           printed = ''Available commands:'' # map help_line (registered_commands NB app args),
           invoked = None\<rparr>)"
  by (auto simp: Run_def Let_def Run_loop_find registered_commands_def initialized_def
        printHelp_def printHelp_loop_lines split: option.splits)

text \<open>
  C7. Run picks a command only by equality of the first argument with a registered
  name. With no argument, or a first argument equal to no registered name, it prints the
  name and description of every registered command, invokes none and returns nil. When
  a registered name equals the first argument, the (first) command of that name is
  invoked and its result is returned.
\<close>

theorem Run_dispatch:
  "(args = [] \<or> list_all (\<lambda>c. Name c \<noteq> hd args) (registered_commands NB app args) \<longrightarrow>
      returned (Run NB app args) = Returned None
      \<and> printed (Run NB app args)
          = ''Available commands:'' # map help_line (registered_commands NB app args)
      \<and> invoked (Run NB app args) = None)
   \<and> (args \<noteq> [] \<and> find (\<lambda>c. Name c = hd args) (registered_commands NB app args) = Some c \<longrightarrow>
      invoked (Run NB app args) = Some c
      \<and> returned (Run NB app args) = cmd_Run c (Arguments (initialized NB app args))
      \<and> printed (Run NB app args) = [])
   \<and> (invoked (Run NB app args) = Some c \<longrightarrow>
      args \<noteq> [] \<and> Name c = hd args \<and> c \<in> set (registered_commands NB app args))"
proof (intro conjI impI)
  assume "args = [] \<or> list_all (\<lambda>c. Name c \<noteq> hd args) (registered_commands NB app args)"
  then have none: "(if args = [] then None
            else find (\<lambda>c. Name c = hd args) (registered_commands NB app args)) = None"
    by (auto simp: find_None_iff list_all_iff)
  show "returned (Run NB app args) = Returned None"
    and "printed (Run NB app args)
          = ''Available commands:'' # map help_line (registered_commands NB app args)"
    and "invoked (Run NB app args) = None"
    unfolding Run_unfold none by simp_all
next
  assume "args \<noteq> [] \<and> find (\<lambda>c. Name c = hd args) (registered_commands NB app args) = Some c"
  then have some: "(if args = [] then None
            else find (\<lambda>c. Name c = hd args) (registered_commands NB app args)) = Some c"
    by simp
  show "invoked (Run NB app args) = Some c"
    and "returned (Run NB app args) = cmd_Run c (Arguments (initialized NB app args))"
    and "printed (Run NB app args) = []"
    unfolding Run_unfold some by simp_all
next
  assume inv: "invoked (Run NB app args) = Some c"
  then have some: "(if args = [] then None
            else find (\<lambda>c. Name c = hd args) (registered_commands NB app args)) = Some c"
    unfolding Run_unfold by (auto split: option.splits if_splits)
  then have ne: "args \<noteq> []"
    by (auto split: if_splits)
  with some have f: "find (\<lambda>c. Name c = hd args) (registered_commands NB app args) = Some c"
    by simp
  show "args \<noteq> []" by (rule ne)
  show "Name c = hd args"
    using f by (auto simp: find_Some_iff)
  show "c \<in> set (registered_commands NB app args)"
    using f by (auto simp: find_Some_iff)
qed

theorem Run_dispatch_witness:
  "registered_commands demo_NewBootstrap demo_app [''deploy''] = [check_command, server_command]
   \<and> list_all (\<lambda>c. Name c \<noteq> hd [''deploy''])
        (registered_commands demo_NewBootstrap demo_app [''deploy''])
   \<and> returned (Run demo_NewBootstrap demo_app [''deploy'']) = Returned None
   \<and> printed (Run demo_NewBootstrap demo_app [''deploy''])
       = [''Available commands:'',
          ''check : Parses and validates the configuration file'',
          ''server : Runs the application as an HTTP server'']
   \<and> printed (Run demo_NewBootstrap demo_app [])
       = [''Available commands:'',
          ''check : Parses and validates the configuration file'',
          ''server : Runs the application as an HTTP server'']
   \<and> returned (Run demo_NewBootstrap demo_app []) = Returned None
   \<and> find (\<lambda>c. Name c = hd [''server'', ''config.json''])
        (registered_commands demo_NewBootstrap demo_app [''server'', ''config.json''])
       = Some server_command
   \<and> invoked (Run demo_NewBootstrap demo_app [''server'', ''config.json'']) = Some server_command
   \<and> returned (Run demo_NewBootstrap demo_app [''server'', ''config.json''])
       = Returned (Some ''listen tcp :8080: address already in use'')
   \<and> Name server_command = hd [''server'', ''config.json'']"
proof -
  have reg: "\<And>args. registered_commands demo_NewBootstrap demo_app args
               = [check_command, server_command]"
    by (simp add: registered_commands_def initialized_def demo_NewBootstrap_def demo_app_def)
  have names: "Name check_command = ''check''" "Name server_command = ''server''"
    by (simp_all add: check_command_def server_command_def)
  have lines: "map help_line [check_command, server_command]
       = [''check : Parses and validates the configuration file'',
          ''server : Runs the application as an HTTP server'']"
    by (simp add: help_line_def check_command_def server_command_def)
  have unknown: "list_all (\<lambda>c. Name c \<noteq> hd [''deploy''])
        (registered_commands demo_NewBootstrap demo_app [''deploy''])"
    by (simp add: reg names)
  have found: "find (\<lambda>c. Name c = hd [''server'', ''config.json''])
        (registered_commands demo_NewBootstrap demo_app [''server'', ''config.json''])
       = Some server_command"
    by (simp add: reg names)
  have run: "cmd_Run server_command
               (Arguments (initialized demo_NewBootstrap demo_app [''server'', ''config.json'']))
             = Returned (Some ''listen tcp :8080: address already in use'')"
    by (simp add: server_command_def)
  have d1: "returned (Run demo_NewBootstrap demo_app [''deploy'']) = Returned None
      \<and> printed (Run demo_NewBootstrap demo_app [''deploy''])
          = ''Available commands:'' # map help_line [check_command, server_command]"
    using Run_dispatch [of "[''deploy'']" demo_NewBootstrap demo_app] unknown
    unfolding reg by blast
  have d2: "returned (Run demo_NewBootstrap demo_app []) = Returned None
      \<and> printed (Run demo_NewBootstrap demo_app [])
          = ''Available commands:'' # map help_line [check_command, server_command]"
    using Run_dispatch [of "[]" demo_NewBootstrap demo_app]
    unfolding reg by blast
  have d3: "invoked (Run demo_NewBootstrap demo_app [''server'', ''config.json''])
          = Some server_command
      \<and> returned (Run demo_NewBootstrap demo_app [''server'', ''config.json''])
          = cmd_Run server_command
              (Arguments (initialized demo_NewBootstrap demo_app [''server'', ''config.json'']))"
    using Run_dispatch [of "[''server'', ''config.json'']" demo_NewBootstrap demo_app
        server_command] found
    by blast
  have d4: "Name server_command = hd [''server'', ''config.json'']
      \<and> server_command \<in> set [check_command, server_command]"
    using Run_dispatch [of "[''server'', ''config.json'']" demo_NewBootstrap demo_app
        server_command] d3
    unfolding reg by blast
  show ?thesis
    using d1 d2 d3 d4 unknown found unfolding lines run by (simp only: reg simp_thms)
qed

section \<open>Properties of the filter wiring\<close>

lemma append_pairs_0: "append_pairs 0 rl handler = handler"
  by (simp add: append_pairs_def)

lemma append_pairs_Suc:
  "append_pairs n rl
     (handler\<lparr>FilterChain := Chain_Add (Chain_Add (FilterChain handler) rl) recoveryFilter\<rparr>)
   = append_pairs (Suc n) rl handler"
  by (simp add: append_pairs_def Chain_Add_def)

text \<open>
  The loop on allocated handlers: each handler gets the pair appended once for each
  time its address occurs in the argument list.
\<close>

lemma count_list_distinct:
  "distinct xs \<Longrightarrow> x \<in> set xs \<Longrightarrow> count_list xs x = 1"
  by (induction xs) auto

lemma AddFilters_loop_allocated:
  "set handlers \<subseteq> dom store \<Longrightarrow>
   AddFilters_loop rl recoveryFilter handlers store =
     Returned (\<lambda>h. map_option (append_pairs (count_list handlers h) rl) (store h))"
proof (induction handlers arbitrary: store)
  case Nil
  show ?case
    by (simp add: append_pairs_0 option.map_ident cong: option.map_cong)
next
  case (Cons a handlers)
  then obtain handler where a: "store a = Some handler" by auto
  let ?h2 = "handler\<lparr>FilterChain := Chain_Add (Chain_Add (FilterChain handler) rl) recoveryFilter\<rparr>"
  have sub: "set handlers \<subseteq> dom (store(a \<mapsto> ?h2))"
    using Cons.prems by auto
  have eq: "(\<lambda>h. map_option (append_pairs (count_list handlers h) rl) ((store(a \<mapsto> ?h2)) h))
      = (\<lambda>h. map_option (append_pairs (count_list (a # handlers) h) rl) (store h))"
    by (rule ext) (simp add: a append_pairs_Suc)
  have step: "AddFilters_loop rl recoveryFilter (a # handlers) store
      = AddFilters_loop rl recoveryFilter handlers (store(a \<mapsto> ?h2))"
    by (simp add: a Let_def)
  show ?case
    unfolding step Cons.IH [OF sub] eq ..
qed

text \<open>
  C8, as stated: for every list of handlers the request log filter and then the recovery
  filter are appended to each handler's chain. It fails when no request log filter can be
  built: AddFilters then returns the error and leaves every chain as it was.
\<close>

theorem AddFilters_always_appends_counterexample:
  "AddFilters unsupported_factory () [0, 1] two_handlers
     = Returned (Some ''server: unsupported request log server.RequestLogConfiguration{}'',
                 two_handlers)
   \<and> chain_after (AddFilters unsupported_factory () [0, 1] two_handlers) 0 = Some []
   \<and> chain_after (AddFilters unsupported_factory () [0, 1] two_handlers) 1
       = Some [builtRequestLog ''audit'']"
  by (simp add: AddFilters_def getRequestLog_def unsupported_factory_def chain_after_def
        two_handlers_def)

lemma Chain_Build_onto_append:
  "Chain_Build_onto inner (chain @ chain') = Chain_Build_onto (Chain_Build_onto inner chain) chain'"
  by (induction chain arbitrary: inner) simp_all

lemma Chain_Build_append_pair:
  "Chain_Build (chain @ [rl, rc]) = Wrap rc (Wrap rl (Chain_Build chain))"
  by (simp add: Chain_Build_def Chain_Build_onto_append)

lemma concat_replicate_pair_last:
  "concat (replicate (Suc n) [a, b]) = concat (replicate n [a, b]) @ [a, b]"
  by (induction n) simp_all

lemma AddFilters_success:
  assumes "getRequestLog f env = Inr rl" and "list_all (\<lambda>h. store h \<noteq> None) handlers"
  shows "AddFilters f env handlers store
        = Returned (None, \<lambda>h. map_option (append_pairs (count_list handlers h) rl) (store h))"
proof -
  from assms(2) have sub: "set handlers \<subseteq> dom store"
    by (auto simp: list_all_iff)
  show ?thesis
    using assms(1) by (simp add: AddFilters_def AddFilters_loop_allocated [OF sub])
qed

text \<open>
  C8, amended. When the request log filter is built without error, AddFilters returns
  nil and has appended to the chain of every given handler the request log filter and
  then the recovery filter, in that order, after the filters the chain held (once for
  each time the handler is given), so that in the pipeline of every given handler the
  recovery stage wraps the request log stage, which wraps what the chain held before;
  handlers not given are unchanged. When building the request log filter fails,
  AddFilters returns that error and changes no chain.
\<close>

theorem AddFilters_appends_in_order:
  "(getRequestLog f env = Inr rl \<and> list_all (\<lambda>h. store h \<noteq> None) handlers \<longrightarrow>
      AddFilters f env handlers store
        = Returned (None, \<lambda>h. map_option (append_pairs (count_list handlers h) rl) (store h))
      \<and> (distinct handlers \<and> store h = Some handler \<and> h \<in> set handlers \<longrightarrow>
           chain_after (AddFilters f env handlers store) h
             = Some (FilterChain handler @ [rl, recoveryFilter])
           \<and> pipeline_after (AddFilters f env handlers store) h
             = Some (Wrap recoveryFilter (Wrap rl (Chain_Build (FilterChain handler)))))
      \<and> (store h = Some handler \<and> h \<in> set handlers \<longrightarrow>
           pipeline_after (AddFilters f env handlers store) h
             = Some (Wrap recoveryFilter (Wrap rl
                 (Chain_Build (FilterChain handler
                    @ concat (replicate (count_list handlers h - 1) [rl, recoveryFilter]))))))
      \<and> (h \<notin> set handlers \<longrightarrow>
           chain_after (AddFilters f env handlers store) h = map_option FilterChain (store h)))
   \<and> (getRequestLog f env = Inl err \<longrightarrow>
      AddFilters f env handlers store = Returned (Some err, store))"
proof (intro conjI impI)
  assume h: "getRequestLog f env = Inr rl \<and> list_all (\<lambda>h. store h \<noteq> None) handlers"
  then show "AddFilters f env handlers store
        = Returned (None, \<lambda>h. map_option (append_pairs (count_list handlers h) rl) (store h))"
    by (simp add: AddFilters_success)
next
  assume h: "getRequestLog f env = Inr rl \<and> list_all (\<lambda>h. store h \<noteq> None) handlers"
    and d: "distinct handlers \<and> store h = Some handler \<and> h \<in> set handlers"
  from h have run: "AddFilters f env handlers store
        = Returned (None, \<lambda>h. map_option (append_pairs (count_list handlers h) rl) (store h))"
    by (simp add: AddFilters_success)
  from d have one: "count_list handlers h = 1"
    by (simp add: count_list_distinct)
  show "chain_after (AddFilters f env handlers store) h
             = Some (FilterChain handler @ [rl, recoveryFilter])"
    using d one by (simp add: run chain_after_def append_pairs_def)
  have "pipeline_after (AddFilters f env handlers store) h
          = Some (Chain_Build (FilterChain handler @ [rl, recoveryFilter]))"
    using d one by (simp add: run pipeline_after_def append_pairs_def)
  then show "pipeline_after (AddFilters f env handlers store) h
             = Some (Wrap recoveryFilter (Wrap rl (Chain_Build (FilterChain handler))))"
    by (simp only: Chain_Build_append_pair)
next
  assume h: "getRequestLog f env = Inr rl \<and> list_all (\<lambda>h. store h \<noteq> None) handlers"
    and d: "store h = Some handler \<and> h \<in> set handlers"
  from h have run: "AddFilters f env handlers store
        = Returned (None, \<lambda>h. map_option (append_pairs (count_list handlers h) rl) (store h))"
    by (simp add: AddFilters_success)
  from d have "count_list handlers h \<noteq> 0"
    by (simp add: count_list_0_iff)
  then obtain n where n: "count_list handlers h = Suc n"
    by (cases "count_list handlers h") auto
  have ch: "FilterChain (append_pairs (count_list handlers h) rl handler)
      = (FilterChain handler @ concat (replicate n [rl, recoveryFilter])) @ [rl, recoveryFilter]"
    unfolding n append_pairs_def concat_replicate_pair_last by simp
  have "pipeline_after (AddFilters f env handlers store) h
          = Some (Chain_Build (FilterChain (append_pairs (count_list handlers h) rl handler)))"
    using d by (simp add: run pipeline_after_def)
  also have "\<dots> = Some (Chain_Build
      ((FilterChain handler @ concat (replicate n [rl, recoveryFilter])) @ [rl, recoveryFilter]))"
    by (simp only: ch)
  finally show "pipeline_after (AddFilters f env handlers store) h
             = Some (Wrap recoveryFilter (Wrap rl
                 (Chain_Build (FilterChain handler
                    @ concat (replicate (count_list handlers h - 1) [rl, recoveryFilter])))))"
    by (simp only: Chain_Build_append_pair n diff_Suc_1)
next
  assume h: "getRequestLog f env = Inr rl \<and> list_all (\<lambda>h. store h \<noteq> None) handlers"
    and "h \<notin> set handlers"
  from h have run: "AddFilters f env handlers store
        = Returned (None, \<lambda>h. map_option (append_pairs (count_list handlers h) rl) (store h))"
    by (simp add: AddFilters_success)
  from \<open>h \<notin> set handlers\<close> have "count_list handlers h = 0"
    by simp
  then show "chain_after (AddFilters f env handlers store) h = map_option FilterChain (store h)"
    by (simp add: run chain_after_def append_pairs_0 option.map_comp comp_def)
next
  assume "getRequestLog f env = Inl err"
  then show "AddFilters f env handlers store = Returned (Some err, store)"
    by (simp add: AddFilters_def)
qed

theorem AddFilters_appends_in_order_witness:
  "getRequestLog default_factory () = Inr noRequestLog
   \<and> list_all (\<lambda>h. two_handlers h \<noteq> None) [1, 0]
   \<and> chain_after (AddFilters default_factory () [1, 0] two_handlers) 0
       = Some [noRequestLog, recoveryFilter]
   \<and> chain_after (AddFilters default_factory () [1, 0] two_handlers) 1
       = Some [builtRequestLog ''audit'', noRequestLog, recoveryFilter]
   \<and> pipeline_after (AddFilters default_factory () [1, 0] two_handlers) 1
       = Some (Wrap recoveryFilter (Wrap noRequestLog
                 (Wrap (builtRequestLog ''audit'') Endpoint)))
   \<and> pipeline_after (AddFilters default_factory () [0, 0] two_handlers) 0
       = Some (Wrap recoveryFilter (Wrap noRequestLog
                 (Wrap recoveryFilter (Wrap noRequestLog Endpoint))))
   \<and> chain_after (AddFilters default_factory () [1] two_handlers) 0 = Some []
   \<and> AddFilters unsupported_factory () [1, 0] two_handlers
       = Returned (Some ''server: unsupported request log server.RequestLogConfiguration{}'',
                   two_handlers)"
proof -
  have g: "getRequestLog default_factory () = Inr noRequestLog"
    by (simp add: getRequestLog_def default_factory_def)
  have bad: "getRequestLog unsupported_factory ()
               = Inl ''server: unsupported request log server.RequestLogConfiguration{}''"
    by (simp add: getRequestLog_def unsupported_factory_def)
  have al: "list_all (\<lambda>h. two_handlers h \<noteq> None) [1, 0]"
    by (simp add: two_handlers_def)
  have al1: "list_all (\<lambda>h. two_handlers h \<noteq> None) [1]"
    by (simp add: two_handlers_def)
  have al00: "list_all (\<lambda>h. two_handlers h \<noteq> None) [0, 0]"
    by (simp add: two_handlers_def)
  have s0: "two_handlers 0 = Some \<lparr>FilterChain = []\<rparr>"
    and s1: "two_handlers 1 = Some \<lparr>FilterChain = [builtRequestLog ''audit'']\<rparr>"
    by (simp_all add: two_handlers_def)
  have d: "distinct [1::nat, 0]" and m0: "0 \<in> set [1::nat, 0]" and m1: "1 \<in> set [1::nat, 0]"
    and n0: "0 \<notin> set [1::nat]" and m00: "0 \<in> set [0::nat, 0]"
    by simp_all
  have c0: "chain_after (AddFilters default_factory () [1, 0] two_handlers) 0
       = Some (FilterChain \<lparr>FilterChain = []\<rparr> @ [noRequestLog, recoveryFilter])"
    using AddFilters_appends_in_order
            [where f = default_factory and env = "()" and rl = noRequestLog
               and store = two_handlers and handlers = "[1, 0]" and h = 0
               and handler = "\<lparr>FilterChain = []\<rparr>"]
      g al s0 d m0 by blast
  have c1: "chain_after (AddFilters default_factory () [1, 0] two_handlers) 1
       = Some (FilterChain \<lparr>FilterChain = [builtRequestLog ''audit'']\<rparr>
               @ [noRequestLog, recoveryFilter])
     \<and> pipeline_after (AddFilters default_factory () [1, 0] two_handlers) 1
       = Some (Wrap recoveryFilter (Wrap noRequestLog
           (Chain_Build (FilterChain \<lparr>FilterChain = [builtRequestLog ''audit'']\<rparr>))))"
    using AddFilters_appends_in_order
            [where f = default_factory and env = "()" and rl = noRequestLog
               and store = two_handlers and handlers = "[1, 0]" and h = 1
               and handler = "\<lparr>FilterChain = [builtRequestLog ''audit'']\<rparr>"]
      g al s1 d m1 by blast
  have c00: "pipeline_after (AddFilters default_factory () [0, 0] two_handlers) 0
       = Some (Wrap recoveryFilter (Wrap noRequestLog
           (Chain_Build (FilterChain \<lparr>FilterChain = []\<rparr>
              @ concat (replicate (count_list [0, 0] (0::nat) - 1) [noRequestLog, recoveryFilter])))))"
    using AddFilters_appends_in_order
            [where f = default_factory and env = "()" and rl = noRequestLog
               and store = two_handlers and handlers = "[0, 0]" and h = 0
               and handler = "\<lparr>FilterChain = []\<rparr>"]
      g al00 s0 m00 by blast
  have c2: "chain_after (AddFilters default_factory () [1] two_handlers) 0
       = map_option FilterChain (two_handlers 0)"
    using AddFilters_appends_in_order
            [where f = default_factory and env = "()" and rl = noRequestLog
               and store = two_handlers and handlers = "[1]" and h = 0]
      g al1 n0 by blast
  have c3: "AddFilters unsupported_factory () [1, 0] two_handlers
       = Returned (Some ''server: unsupported request log server.RequestLogConfiguration{}'',
                   two_handlers)"
    using AddFilters_appends_in_order
            [where f = unsupported_factory and env = "()" and store = two_handlers
               and handlers = "[1, 0]"
               and err = "''server: unsupported request log server.RequestLogConfiguration{}''"]
      bad
    by blast
  have b1: "Chain_Build (FilterChain \<lparr>FilterChain = [builtRequestLog ''audit'']\<rparr>)
              = Wrap (builtRequestLog ''audit'') Endpoint"
    by (simp add: Chain_Build_def)
  have b0: "Chain_Build (FilterChain \<lparr>FilterChain = []\<rparr>
              @ concat (replicate (count_list [0, 0] (0::nat) - 1) [noRequestLog, recoveryFilter]))
              = Wrap recoveryFilter (Wrap noRequestLog Endpoint)"
    by (simp add: Chain_Build_def)
  show ?thesis
    using g al c0 c1 c00 c2 c3 unfolding b1 b0 by (simp add: s0)
qed

section \<open>Properties of the admin environment\<close>

lemma handle_tasks_calls:
  "handle_tasks ts sh =
     sh\<lparr>handled := handled sh @ map (\<lambda>t. (''POST'', ''/tasks/'' @ Task_Name t, TaskHandler t)) ts\<rparr>"
  by (induction ts arbitrary: sh) (simp_all add: Handle_def Let_def)

lemma onStarting_Returned:
  "ServerHandler env = Some sh \<Longrightarrow>
   onStarting env =
     Returned (env\<lparr>ServerHandler :=
       Some (sh\<lparr>handled := handled sh
                  @ builtin_routes (PathPrefix sh) (HealthChecks env) (tasks env)\<rparr>)\<rparr>)"
  by (simp add: onStarting_def Let_def handle_tasks_calls Handle_def builtin_routes_def)

lemma onStarting_calls:
  "ServerHandler env = Some sh \<Longrightarrow>
   calls_of (onStarting env)
     = handled sh @ builtin_routes (PathPrefix sh) (HealthChecks env) (tasks env)"
  by (simp add: onStarting_Returned calls_of_def)

lemma onStarting_twice_calls:
  "ServerHandler env = Some sh \<Longrightarrow>
   calls_of (and_then (onStarting env) onStarting)
     = handled sh @ builtin_routes (PathPrefix sh) (HealthChecks env) (tasks env)
                  @ builtin_routes (PathPrefix sh) (HealthChecks env) (tasks env)"
  by (simp add: onStarting_Returned calls_of_def)

lemma DefaultServerHandler_Handle_fresh:
  "pattern \<noteq> [] \<Longrightarrow> ServeMux sh (ContextPath sh @ pattern) = None \<Longrightarrow>
   DefaultServerHandler_Handle pattern handler sh
     = Returned (sh\<lparr>ServeMux := (ServeMux sh)(ContextPath sh @ pattern \<mapsto> handler)\<rparr>)"
  by (simp add: DefaultServerHandler_Handle_def ServeMux_Handle_def)

lemma addHandlers_fresh:
  assumes sh: "gows_ServerHandler env = Some sh"
    and fresh: "list_all (\<lambda>p. ServeMux sh (ContextPath sh @ p) = None)
                  [''/ping'', ''/runtime'', ''/healthcheck'', ''/'']"
  shows "addHandlers env =
     Returned (env\<lparr>gows_ServerHandler := Some (sh\<lparr>ServeMux :=
       (ServeMux sh)
         (ContextPath sh @ ''/ping'' \<mapsto> handleAdminPing,
          ContextPath sh @ ''/runtime'' \<mapsto> handleAdminRuntime,
          ContextPath sh @ ''/healthcheck'' \<mapsto> HealthCheckHandler (HealthCheckRegistry env),
          ContextPath sh @ ''/'' \<mapsto> AdminHandler (ContextPath sh))\<rparr>)\<rparr>)"
  using fresh
  by (simp add: addHandlers_def sh DefaultServerHandler_Handle_fresh)

text \<open>
  C9, as stated: the registration step is idempotent and happens once per environment;
  run twice, it leaves the same routes and does not fail. The code has no guard: over the
  ServeMux-backed handler of package gows the second run panics on the first pattern,
  and in package core the second run issues every Handle call again.
\<close>

theorem registerBuiltins_idempotent_counterexample:
  "patterns_of (addHandlers gows_admin)
     = {''/admin/ping'', ''/admin/runtime'', ''/admin/healthcheck'', ''/admin/''}
   \<and> and_then (addHandlers gows_admin) addHandlers
       = Panic ''http: multiple registrations for /admin/ping''
   \<and> length (calls_of (onStarting core_admin)) = 6
   \<and> length (calls_of (and_then (onStarting core_admin) onStarting)) = 12
   \<and> count_list (calls_of (and_then (onStarting core_admin) onStarting))
        (''GET'', ''/ping'', handleAdminPing) = 2"
proof -
  have sh: "gows_ServerHandler gows_admin = Some \<lparr>ContextPath = ''/admin'', ServeMux = Map.empty\<rparr>"
    by (simp add: gows_admin_def NewDefaultServerHandler_def)
  have fresh: "list_all (\<lambda>p. ServeMux \<lparr>ContextPath = ''/admin'', ServeMux = Map.empty\<rparr>
                     (ContextPath \<lparr>ContextPath = ''/admin'', ServeMux = Map.empty\<rparr> @ p) = None)
                  [''/ping'', ''/runtime'', ''/healthcheck'', ''/'']"
    by simp
  note once = addHandlers_fresh [OF sh fresh]
  have p: "patterns_of (addHandlers gows_admin)
     = {''/admin/ping'', ''/admin/runtime'', ''/admin/healthcheck'', ''/admin/''}"
    unfolding once by (auto simp: patterns_of_def)
  have twice: "and_then (addHandlers gows_admin) addHandlers
       = Panic ''http: multiple registrations for /admin/ping''"
    unfolding once
    by (simp add: addHandlers_def DefaultServerHandler_Handle_def ServeMux_Handle_def)
  have csh: "ServerHandler core_admin = Some \<lparr>PathPrefix = ''/admin'', handled = []\<rparr>"
    by (simp add: core_admin_def)
  have ts: "tasks core_admin = [GCTask, LogTask]"
    by (simp add: core_admin_def NewAdminEnvironment_def AddTask_def)
  show ?thesis
    unfolding onStarting_calls [OF csh] onStarting_twice_calls [OF csh] ts
    using p twice by (simp add: builtin_routes_def)
qed

text \<open>
  C9, amended. Every run of the registration step registers exactly the fixed routes.
  In package core it calls Handle for GET /ping, GET /runtime, GET /healthcheck, GET /
  and POST /tasks/<name> for each registered task, in this order, and for nothing else.
  In package gows, on a mux that holds none of them, it registers the four patterns
  /ping, /runtime, /healthcheck and / under the context path. The step is not guarded
  against a second run: in package core a second run issues the same calls again, and
  in package gows it panics on the pattern registered first.
\<close>

theorem registerBuiltins_routes:
  "(ServerHandler env = Some sh \<longrightarrow>
      calls_of (onStarting env)
        = handled sh @ builtin_routes (PathPrefix sh) (HealthChecks env) (tasks env)
      \<and> calls_of (and_then (onStarting env) onStarting)
        = handled sh @ builtin_routes (PathPrefix sh) (HealthChecks env) (tasks env)
                     @ builtin_routes (PathPrefix sh) (HealthChecks env) (tasks env))
   \<and> (gows_ServerHandler genv = Some gsh
       \<and> list_all (\<lambda>p. ServeMux gsh (ContextPath gsh @ p) = None)
            [''/ping'', ''/runtime'', ''/healthcheck'', ''/''] \<longrightarrow>
      patterns_of (addHandlers genv)
        = dom (ServeMux gsh)
          \<union> {ContextPath gsh @ ''/ping'', ContextPath gsh @ ''/runtime'',
             ContextPath gsh @ ''/healthcheck'', ContextPath gsh @ ''/''}
      \<and> and_then (addHandlers genv) addHandlers
        = Panic (''http: multiple registrations for '' @ ContextPath gsh @ ''/ping''))"
proof (intro conjI impI)
  assume "ServerHandler env = Some sh"
  then show "calls_of (onStarting env)
        = handled sh @ builtin_routes (PathPrefix sh) (HealthChecks env) (tasks env)"
    and "calls_of (and_then (onStarting env) onStarting)
        = handled sh @ builtin_routes (PathPrefix sh) (HealthChecks env) (tasks env)
                     @ builtin_routes (PathPrefix sh) (HealthChecks env) (tasks env)"
    by (simp_all add: onStarting_calls onStarting_twice_calls)
next
  assume h: "gows_ServerHandler genv = Some gsh
       \<and> list_all (\<lambda>p. ServeMux gsh (ContextPath gsh @ p) = None)
            [''/ping'', ''/runtime'', ''/healthcheck'', ''/'']"
  then have sh: "gows_ServerHandler genv = Some gsh"
    and fresh: "list_all (\<lambda>p. ServeMux gsh (ContextPath gsh @ p) = None)
            [''/ping'', ''/runtime'', ''/healthcheck'', ''/'']"
    by simp_all
  note once = addHandlers_fresh [OF sh fresh]
  show "patterns_of (addHandlers genv)
        = dom (ServeMux gsh)
          \<union> {ContextPath gsh @ ''/ping'', ContextPath gsh @ ''/runtime'',
             ContextPath gsh @ ''/healthcheck'', ContextPath gsh @ ''/''}"
    unfolding once by (auto simp: patterns_of_def)
  show "and_then (addHandlers genv) addHandlers
        = Panic (''http: multiple registrations for '' @ ContextPath gsh @ ''/ping'')"
    unfolding once
    by (simp add: addHandlers_def DefaultServerHandler_Handle_def ServeMux_Handle_def)
qed

theorem registerBuiltins_routes_witness:
  "ServerHandler core_admin = Some \<lparr>PathPrefix = ''/admin'', handled = []\<rparr>
   \<and> calls_of (onStarting core_admin)
       = [(''GET'', ''/ping'', handleAdminPing),
          (''GET'', ''/runtime'', handleAdminRuntime),
          (''GET'', ''/healthcheck'', HealthCheckHandler []),
          (''GET'', ''/'', AdminHandler ''/admin''),
          (''POST'', ''/tasks/gc'', TaskHandler GCTask),
          (''POST'', ''/tasks/log'', TaskHandler LogTask)]
   \<and> gows_ServerHandler gows_admin = Some \<lparr>ContextPath = ''/admin'', ServeMux = Map.empty\<rparr>
   \<and> patterns_of (addHandlers gows_admin)
       = {''/admin/ping'', ''/admin/runtime'', ''/admin/healthcheck'', ''/admin/''}"
proof -
  have csh: "ServerHandler core_admin = Some \<lparr>PathPrefix = ''/admin'', handled = []\<rparr>"
    by (simp add: core_admin_def)
  have ts: "tasks core_admin = [GCTask, LogTask]" and hc: "HealthChecks core_admin = []"
    by (simp_all add: core_admin_def NewAdminEnvironment_def AddTask_def)
  have sh: "gows_ServerHandler gows_admin = Some \<lparr>ContextPath = ''/admin'', ServeMux = Map.empty\<rparr>"
    by (simp add: gows_admin_def NewDefaultServerHandler_def)
  have fresh: "list_all (\<lambda>p. ServeMux \<lparr>ContextPath = ''/admin'', ServeMux = Map.empty\<rparr>
                     (ContextPath \<lparr>ContextPath = ''/admin'', ServeMux = Map.empty\<rparr> @ p) = None)
                  [''/ping'', ''/runtime'', ''/healthcheck'', ''/'']"
    by simp
  have c: "calls_of (onStarting core_admin)
        = handled \<lparr>PathPrefix = ''/admin'', handled = []\<rparr>
          @ builtin_routes (PathPrefix \<lparr>PathPrefix = ''/admin'', handled = []\<rparr>)
              (HealthChecks core_admin) (tasks core_admin)"
    using registerBuiltins_routes
            [where env = core_admin and sh = "\<lparr>PathPrefix = ''/admin'', handled = []\<rparr>"] csh
    by blast
  have g: "patterns_of (addHandlers gows_admin)
        = dom (ServeMux \<lparr>ContextPath = ''/admin'', ServeMux = Map.empty\<rparr>)
          \<union> {ContextPath \<lparr>ContextPath = ''/admin'', ServeMux = Map.empty\<rparr> @ ''/ping'',
             ContextPath \<lparr>ContextPath = ''/admin'', ServeMux = Map.empty\<rparr> @ ''/runtime'',
             ContextPath \<lparr>ContextPath = ''/admin'', ServeMux = Map.empty\<rparr> @ ''/healthcheck'',
             ContextPath \<lparr>ContextPath = ''/admin'', ServeMux = Map.empty\<rparr> @ ''/''}"
    using registerBuiltins_routes
            [where genv = gows_admin
               and gsh = "\<lparr>ContextPath = ''/admin'', ServeMux = Map.empty\<rparr>"] sh fresh
    by blast
  show ?thesis
    unfolding c g ts hc using csh sh by (simp add: builtin_routes_def)
qed

text \<open>
  C10. A new admin environment of package core holds the two default tasks, named gc and
  log, before anything else is registered. Whatever tasks the application adds, the
  registration step registers POST /tasks/gc and POST /tasks/log. The gc task writes
  "Running GC...", then forces a garbage collection, then writes "Done!".
\<close>

theorem NewAdminEnvironment_default_tasks:
  "tasks NewAdminEnvironment = [GCTask, LogTask]
   \<and> map Task_Name (tasks NewAdminEnvironment) = [''gc'', ''log'']
   \<and> (''POST'', ''/tasks/gc'', TaskHandler GCTask)
        \<in> set (calls_of (onStarting (AddTask (NewAdminEnvironment\<lparr>ServerHandler := Some sh\<rparr>) added)))
   \<and> (''POST'', ''/tasks/log'', TaskHandler LogTask)
        \<in> set (calls_of (onStarting (AddTask (NewAdminEnvironment\<lparr>ServerHandler := Some sh\<rparr>) added)))
   \<and> calls_of (onStarting (NewAdminEnvironment\<lparr>ServerHandler := Some sh\<rparr>))
       = handled sh
         @ [(''GET'', ''/ping'', handleAdminPing),
            (''GET'', ''/runtime'', handleAdminRuntime),
            (''GET'', ''/healthcheck'', HealthCheckHandler []),
            (''GET'', ''/'', AdminHandler (PathPrefix sh)),
            (''POST'', ''/tasks/gc'', TaskHandler GCTask),
            (''POST'', ''/tasks/log'', TaskHandler LogTask)]
   \<and> snd (GCTask_ServeHTTP (w, fx))
       = fx @ [Wrote (''Running GC...'' @ NL), RanGC, Wrote (''Done!'' @ NL)]
   \<and> body (fst (GCTask_ServeHTTP (w, fx))) = body w @ ''Running GC...'' @ NL @ ''Done!'' @ NL"
proof -
  have ts: "tasks NewAdminEnvironment = [GCTask, LogTask]"
    by (simp add: NewAdminEnvironment_def AddTask_def)
  let ?env = "AddTask (NewAdminEnvironment\<lparr>ServerHandler := Some sh\<rparr>) added"
  have sh: "ServerHandler ?env = Some sh"
    and ts': "tasks ?env = [GCTask, LogTask] @ added"
    by (simp_all add: AddTask_def ts)
  have sh0: "ServerHandler (NewAdminEnvironment\<lparr>ServerHandler := Some sh\<rparr>) = Some sh"
    and hc0: "HealthChecks (NewAdminEnvironment\<lparr>ServerHandler := Some sh\<rparr>) = []"
    and ts0: "tasks (NewAdminEnvironment\<lparr>ServerHandler := Some sh\<rparr>) = [GCTask, LogTask]"
    by (simp_all add: NewAdminEnvironment_def AddTask_def)
  have gc: "(''POST'', ''/tasks/gc'', TaskHandler GCTask) \<in> set (calls_of (onStarting ?env))"
    and lg: "(''POST'', ''/tasks/log'', TaskHandler LogTask) \<in> set (calls_of (onStarting ?env))"
    unfolding onStarting_calls [OF sh] ts' by (simp_all add: builtin_routes_def)
  have all: "calls_of (onStarting (NewAdminEnvironment\<lparr>ServerHandler := Some sh\<rparr>))
       = handled sh
         @ [(''GET'', ''/ping'', handleAdminPing),
            (''GET'', ''/runtime'', handleAdminRuntime),
            (''GET'', ''/healthcheck'', HealthCheckHandler []),
            (''GET'', ''/'', AdminHandler (PathPrefix sh)),
            (''POST'', ''/tasks/gc'', TaskHandler GCTask),
            (''POST'', ''/tasks/log'', TaskHandler LogTask)]"
    unfolding onStarting_calls [OF sh0] hc0 ts0 by (simp add: builtin_routes_def)
  have fx: "snd (GCTask_ServeHTTP (w, fx))
       = fx @ [Wrote (''Running GC...'' @ NL), RanGC, Wrote (''Done!'' @ NL)]"
    by (simp add: GCTask_ServeHTTP_def runtime_GC_def)
  have bd: "body (fst (GCTask_ServeHTTP (w, fx))) = body w @ ''Running GC...'' @ NL @ ''Done!'' @ NL"
    by (simp add: GCTask_ServeHTTP_def Write_def WriteHeader_def Let_def split: option.splits)
  show ?thesis
    using ts gc lg all fx bd by simp
qed

end
